theory Spec2Isabelle
  imports Main "HOL-Library.Word"
begin

section \<open>Data model\<close>

text \<open>
  Go's \<open>int\<close> on a 64-bit platform: a signed 64-bit machine integer. Addition wraps
  around, comparisons are signed (\<open><s\<close>, \<open>\<le>s\<close>). It is the type of status codes, of
  \<open>RetryConfig.Attempts\<close>, of \<open>totalTries\<close> and of the loop counter \<open>try\<close>.
\<close>

type_synonym go_int = "64 word"

text \<open>
  Errors as values. \<open>External\<close> is an error made by a collaborator (the transport, the
  body stream, the rate limiter, the JSON codec), known by its \<open>Error()\<close> text; the
  collaborators below answer with such texts. The other
  constructors are the errors the package itself builds, one for each \<open>errors.New\<close> and
  \<open>fmt.Errorf\<close> of the source; a constructor with an \<open>error\<close> argument wraps it (\<open>%w\<close>).
\<close>

datatype error =
    External string
  | NilClient
  | NilRequest
  | InvalidDestination string
  | RateLimitWaitFailed error
  | UnexpectedStatus "go_int list" go_int string
  | DecodeError error string
  | RetriesExhausted go_int error

text \<open>
  The destination \<open>dest any\<close>, as far as \<open>reflect\<close> and the nil test of \<open>do\<close> tell its
  values apart: the nil interface, a value that is no pointer, a typed nil pointer, and a
  pointer to a value. The string is the dynamic type's name (what \<open>%T\<close> prints).
\<close>

datatype 'v dest =
    NilInterface
  | NonPointer string
  | NilPointer string
  | Pointer string 'v

text \<open>
  A \<open>context.Context\<close>, as far as this package is concerned: \<open>ctx_Err\<close> is its \<open>Err()\<close>,
  nil while the context is live and the cancellation cause once it is done.
\<close>

datatype ctx = Context (ctx_Err: "string option")

text \<open>
  The collaborators. A limiter answers its \<open>k\<close>-th \<open>Wait\<close> (counted from 0) for a context
  with nil or an error; a client answers its \<open>k\<close>-th \<open>Do\<close> with a transport error, with a
  response whose body cannot be read, or with a response of some status and body.
\<close>

datatype limiter = Limiter (Wait: "nat \<Rightarrow> ctx \<Rightarrow> string option")

datatype http_outcome =
    DoError string
  | BodyReadError go_int string
  | Response go_int string

datatype client = Client (client_Do: "nat \<Rightarrow> http_outcome")

text \<open>
  The request, of which \<open>do\<close> reads the context only. The context is an option because
  line 241 tests \<open>reqCtx != nil\<close>.
\<close>

datatype request = Request (req_Context: "ctx option")

text \<open>
  \<open>RetryConfig\<close> and \<open>Options\<close> of \<open>options.go\<close>. Slices are lists, nil being \<open>[]\<close>;
  pointers are options, nil being \<open>None\<close>.
\<close>

record RetryConfig =
  Attempts :: go_int
  RetryStatusCodes :: "go_int list"

record Options =
  ExpectedStatusCodes :: "go_int list"
  Retry :: "RetryConfig option"
  RateLimiter :: "limiter option"

text \<open>
  The JSON codec of \<open>encoding/json\<close>, taken as a parameter: \<open>Unmarshal_any\<close> is
  \<open>json.Unmarshal(body, &raw)\<close> with \<open>raw any\<close>, \<open>MarshalIndent\<close> is
  \<open>json.MarshalIndent(raw, "", "\t")\<close>, and \<open>Unmarshal\<close> is \<open>json.Unmarshal(body, dest)\<close>,
  which returns its error and the destination as it has left it.
\<close>

record ('r, 'v) codec =
  Unmarshal_any :: "string \<Rightarrow> string + 'r"
  MarshalIndent :: "'r \<Rightarrow> string + string"
  Unmarshal :: "string \<Rightarrow> 'v dest \<Rightarrow> string option \<times> 'v dest"

text \<open>
  The effects of a call are the calls it makes on its collaborators. They are recorded, in
  order, in a log. \<open>Call_do try codes\<close> records that the attempt loop enters \<open>do\<close> on try
  number \<open>try\<close> with the retry codes \<open>codes\<close>, and \<open>Return_do shouldRetry err\<close> what that
  call of \<open>do\<close> has returned to the loop.
\<close>

datatype event =
    Call_do go_int "go_int list"
  | Return_do bool "error option"
  | Limiter_Wait
  | Transport_Send
  | Body_ReadAll
  | Codec_Parse
  | Codec_MarshalIndent
  | Codec_Decode

definition waits :: "event list \<Rightarrow> nat" where
  "waits log = length (filter (\<lambda>e. e = Limiter_Wait) log)"

definition sends :: "event list \<Rightarrow> nat" where
  "sends log = length (filter (\<lambda>e. e = Transport_Send) log)"

section \<open>The single-attempt executor: \<open>do\<close>\<close>

text \<open>\<open>rateLimiter.Wait(reqCtx)\<close>, guarded by \<open>rateLimiter != nil && reqCtx != nil\<close>.\<close>

definition limiter_wait ::
  "limiter option \<Rightarrow> ctx option \<Rightarrow> event list \<Rightarrow> string option \<times> event list" where
  "limiter_wait rateLimiter reqCtx log =
     (case rateLimiter of
        None \<Rightarrow> (None, log)
      | Some lim \<Rightarrow>
          (case reqCtx of
             None \<Rightarrow> (None, log)
           | Some ctx \<Rightarrow> (Wait lim (waits log) ctx, log @ [Limiter_Wait])))"

text \<open>
  Lines 262 to 268: \<open>errRespBody\<close> starts as \<open>string(body)\<close> and is replaced by the
  indented re-encoding only when both the parse and the re-encoding succeed.
\<close>

definition errRespBody :: "('r, 'v) codec \<Rightarrow> string \<Rightarrow> string" where
  "errRespBody cd body =
     (case Unmarshal_any cd body of
        Inl uerr \<Rightarrow> body
      | Inr raw \<Rightarrow>
          (case MarshalIndent cd raw of
             Inl merr \<Rightarrow> body
           | Inr pretty \<Rightarrow> pretty))"

text \<open>The calls on the codec that building \<open>errRespBody\<close> makes.\<close>

definition errRespBody_events :: "('r, 'v) codec \<Rightarrow> string \<Rightarrow> event list" where
  "errRespBody_events cd body =
     (case Unmarshal_any cd body of
        Inl uerr \<Rightarrow> [Codec_Parse]
      | Inr raw \<Rightarrow> [Codec_Parse, Codec_MarshalIndent])"

text \<open>
  \<open>do\<close>, lines 229 to 283, one case for each return of the source, in its order. The
  result is the pair the source returns, the destination as the call leaves it, and the
  log. The send is the \<open>k\<close>-th of the client, \<open>k\<close> being the number of sends logged so far.
\<close>

definition do ::
  "('r, 'v) codec \<Rightarrow> client option \<Rightarrow> limiter option \<Rightarrow> request option \<Rightarrow> 'v dest \<Rightarrow>
   go_int list \<Rightarrow> go_int list \<Rightarrow> event list \<Rightarrow> (bool \<times> error option) \<times> 'v dest \<times> event list" where
  "do cd httpClient rateLimiter req dest expectedStatusCodes shouldRetryStatusCodes log =
     (case httpClient of
        None \<Rightarrow> ((False, Some NilClient), dest, log)
      | Some cl \<Rightarrow>
     (case req of
        None \<Rightarrow> ((False, Some NilRequest), dest, log)
      | Some rq \<Rightarrow>
     (let expected = (if expectedStatusCodes = [] then [200] else expectedStatusCodes) in
     (case limiter_wait rateLimiter (req_Context rq) log of
        (Some err, log1) \<Rightarrow> ((False, Some (RateLimitWaitFailed (External err))), dest, log1)
      | (None, log1) \<Rightarrow>
     (case client_Do cl (sends log1) of
        DoError err \<Rightarrow> ((False, Some (External err)), dest, log1 @ [Transport_Send])
      | BodyReadError st err \<Rightarrow>
          ((False, Some (External err)), dest, log1 @ [Transport_Send, Body_ReadAll])
      | Response st body \<Rightarrow>
     (let log2 = log1 @ [Transport_Send, Body_ReadAll] in
      if st \<in> set shouldRetryStatusCodes then ((True, None), dest, log2)
      else
     (let diag = errRespBody cd body;
          log3 = log2 @ errRespBody_events cd body in
      if st \<notin> set expected then ((False, Some (UnexpectedStatus expected st diag)), dest, log3)
      else if dest = NilInterface then ((False, None), dest, log3)
      else
     (case Unmarshal cd body dest of
        (Some err, dest') \<Rightarrow>
          ((False, Some (DecodeError (External err) diag)), dest', log3 @ [Codec_Decode])
      | (None, dest') \<Rightarrow> ((False, None), dest', log3 @ [Codec_Decode])))))))))"

section \<open>The attempt loop: \<open>exec\<close>\<close>

text \<open>
  The test of line 181, \<open>rv.Kind() != reflect.Pointer || rv.IsNil()\<close>, negated: the
  destination is a pointer and is not nil. \<open>type_name\<close> is what \<open>%T\<close> prints.
\<close>

fun is_non_nil_pointer :: "'v dest \<Rightarrow> bool" where
  "is_non_nil_pointer (Pointer ty v) = True"
| "is_non_nil_pointer NilInterface = False"
| "is_non_nil_pointer (NonPointer ty) = False"
| "is_non_nil_pointer (NilPointer ty) = False"

fun type_name :: "'v dest \<Rightarrow> string" where
  "type_name NilInterface = ''<nil>''"
| "type_name (NonPointer ty) = ty"
| "type_name (NilPointer ty) = ty"
| "type_name (Pointer ty v) = ty"

text \<open>\<open>new(Options)\<close> and \<open>new(RetryConfig)\<close>: the zero values.\<close>

definition new_Options :: Options where
  "new_Options = \<lparr>ExpectedStatusCodes = [], Retry = None, RateLimiter = None\<rparr>"

definition new_RetryConfig :: RetryConfig where
  "new_RetryConfig = \<lparr>Attempts = 0, RetryStatusCodes = []\<rparr>"

text \<open>
  Lines 188 to 195: a nil \<open>opts.Retry\<close> is replaced by a fresh \<open>RetryConfig\<close>, and a
  negative \<open>Attempts\<close> is overwritten with 0. \<open>normalize_retry\<close> is the \<open>RetryConfig\<close>
  that \<open>opts.Retry\<close> points to after line 195.
\<close>

definition normalize_retry :: "RetryConfig option \<Rightarrow> RetryConfig" where
  "normalize_retry r =
     (let rc = (case r of None \<Rightarrow> new_RetryConfig | Some rc \<Rightarrow> rc) in
      if Attempts rc <s 0 then rc\<lparr>Attempts := 0\<rparr> else rc)"

text \<open>
  Lines 199 to 224, the loop \<open>for try := 1; try <= totalTries; try++\<close>, entered at \<open>try = try_no\<close>.
  \<open>rc\<close> is the \<open>RetryConfig\<close> behind \<open>opts.Retry\<close>. The result is the returned error, the
  destination and the log.
\<close>

function exec_loop ::
  "('r, 'v) codec \<Rightarrow> client option \<Rightarrow> request option \<Rightarrow> Options \<Rightarrow> RetryConfig \<Rightarrow>
   go_int \<Rightarrow> go_int \<Rightarrow> 'v dest \<Rightarrow> event list \<Rightarrow> error option \<times> 'v dest \<times> event list" where
  "exec_loop cd client req opts rc totalTries try_no dest log =
     (if try_no \<le>s totalTries then
        (let retryCodes = (if try_no = totalTries then [] else RetryStatusCodes rc) in
         case do cd client (RateLimiter opts) req dest (ExpectedStatusCodes opts) retryCodes
                 (log @ [Call_do try_no retryCodes]) of
           ((shouldRetry, Some err), dest', log') \<Rightarrow>
             (if 0 <s Attempts rc
              then (Some (RetriesExhausted (Attempts rc) err), dest',
                    log' @ [Return_do shouldRetry (Some err)])
              else (Some err, dest', log' @ [Return_do shouldRetry (Some err)]))
         | ((shouldRetry, None), dest', log') \<Rightarrow>
             (if \<not> shouldRetry then (None, dest', log' @ [Return_do shouldRetry None])
              else exec_loop cd client req opts rc totalTries (try_no + 1) dest'
                     (log' @ [Return_do shouldRetry None])))
      else (None, dest, log))"
  by pat_completeness auto

text \<open>
  The loop ends: \<open>do\<close> asks for another try only when the status is among the retry codes
  it was given, and on try \<open>totalTries\<close> it is given none, so \<open>try++\<close> is reached only
  below \<open>totalTries\<close>, where it cannot wrap around.
\<close>

termination exec_loop
proof (relation "measure (\<lambda>(cd, client, req, opts, rc, totalTries, try_no, dest, log).
                   nat (sint totalTries - sint try_no + 1))", goal_cases)
  case 1
  show ?case by simp
next
  case (2 cd client req opts rc totalTries try_no dest log retryCodes r res shouldRetry err dest' log')
  from 2 have "do cd client (RateLimiter opts) req dest (ExpectedStatusCodes opts) retryCodes
                 (log @ [Call_do try_no retryCodes]) = ((True, None), res)"
    by (cases shouldRetry) auto
  then have "retryCodes \<noteq> []"
    by (auto simp: do_def Let_def split: option.splits prod.splits http_outcome.splits if_splits)
  with 2 have ne: "sint try_no \<noteq> sint totalTries"
    by (auto dest: signed_word_eqI)
  from 2 have le: "sint try_no \<le> sint totalTries"
    by (simp add: word_sle_eq)
  have "sint totalTries < 2 ^ 63" using sint_lt [of totalTries] by simp
  moreover have "- (2 ^ 63) \<le> sint try_no" using sint_ge [of try_no] by simp
  ultimately have b: "- (2 ^ 63) \<le> sint try_no + 1" "sint try_no + 1 < 2 ^ 63"
    using le ne by linarith+
  have "sint (try_no + 1) = signed_take_bit 63 (sint try_no + 1)"
    by (simp add: sint_word_ariths)
  also have "\<dots> = sint try_no + 1"
    using b by (simp add: signed_take_bit_int_eq_self)
  finally show ?case using le by simp
qed

declare exec_loop.simps [simp del]

text \<open>
  What a call of \<open>exec\<close> leaves behind: the error it returns (\<open>None\<close> is nil), the
  \<open>Options\<close> as the caller finds them behind the pointer that was passed (\<open>None\<close> when nil
  was passed), the destination, and the log.
\<close>

record 'v exec_result =
  returned :: "error option"
  opts_after :: "Options option"
  dest_after :: "'v dest"
  log_after :: "event list"

text \<open>
  \<open>exec\<close>, lines 178 to 227. \<open>client\<close> is the receiver's field \<open>c.client\<close>. The writes of
  lines 189 and 194 go through the pointer \<open>opts\<close>, so when the caller passed an
  \<open>Options\<close> it is the caller's that ends up with the normalized \<open>Retry\<close>; when nil was
  passed, the fresh \<open>Options\<close> of line 186 is local to the call.
\<close>

definition exec ::
  "('r, 'v) codec \<Rightarrow> client option \<Rightarrow> request option \<Rightarrow> 'v dest \<Rightarrow> bool \<Rightarrow>
   Options option \<Rightarrow> event list \<Rightarrow> 'v exec_result" where
  "exec cd client req dest validateDest opts log =
     (if validateDest \<and> \<not> is_non_nil_pointer dest then
        \<lparr>returned = Some (InvalidDestination (type_name dest)), opts_after = opts,
         dest_after = dest, log_after = log\<rparr>
      else
        (let opt0 = (case opts of None \<Rightarrow> new_Options | Some opt \<Rightarrow> opt);
             rc = normalize_retry (Retry opt0);
             opt = opt0\<lparr>Retry := Some rc\<rparr>;
             totalTries = 1 + Attempts rc
         in case exec_loop cd client req opt rc totalTries 1 dest log of
              (err, dest', log') \<Rightarrow>
                \<lparr>returned = err,
                 opts_after = (case opts of None \<Rightarrow> None | Some _ \<Rightarrow> Some opt),
                 dest_after = dest', log_after = log'\<rparr>))"

text \<open>The four methods of \<open>bHTTP\<close>, lines 162 to 176.\<close>

definition Do ::
  "('r, 'v) codec \<Rightarrow> client option \<Rightarrow> request option \<Rightarrow> event list \<Rightarrow> 'v exec_result" where
  "Do cd client req log = exec cd client req NilInterface False None log"

definition DoWithOptions ::
  "('r, 'v) codec \<Rightarrow> client option \<Rightarrow> request option \<Rightarrow> Options option \<Rightarrow> event list \<Rightarrow>
   'v exec_result" where
  "DoWithOptions cd client req opts log = exec cd client req NilInterface False opts log"

definition DoAndUnwrap ::
  "('r, 'v) codec \<Rightarrow> client option \<Rightarrow> request option \<Rightarrow> 'v dest \<Rightarrow> event list \<Rightarrow>
   'v exec_result" where
  "DoAndUnwrap cd client req dest log = exec cd client req dest True None log"

definition DoAndUnwrapWithOptions ::
  "('r, 'v) codec \<Rightarrow> client option \<Rightarrow> request option \<Rightarrow> 'v dest \<Rightarrow> Options option \<Rightarrow>
   event list \<Rightarrow> 'v exec_result" where
  "DoAndUnwrapWithOptions cd client req dest opts log = exec cd client req dest True opts log"

section \<open>Error texts\<close>

text \<open>
  \<open>Error\<close> is the text of an error, \<open>err.Error()\<close>: the format strings of the source with
  \<open>%d\<close> a decimal number, \<open>%+v\<close> of an \<open>[]int\<close> the numbers between brackets and
  separated by blanks, \<open>%s\<close> the string itself and \<open>%w\<close> the text of the wrapped error.
\<close>

fun show_nat :: "nat \<Rightarrow> string" where
  "show_nat n =
     (if n < 10 then [char_of (48 + n)]
      else show_nat (n div 10) @ [char_of (48 + n mod 10)])"

declare show_nat.simps [simp del]

definition show_int :: "go_int \<Rightarrow> string" where
  "show_int i =
     (if sint i < 0 then CHR ''-'' # show_nat (nat (- sint i)) else show_nat (nat (sint i)))"

fun show_ints :: "go_int list \<Rightarrow> string" where
  "show_ints [] = []"
| "show_ints [i] = show_int i"
| "show_ints (i # j # js) = show_int i @ '' '' @ show_ints (j # js)"

fun Error :: "error \<Rightarrow> string" where
  "Error (External msg) = msg"
| "Error NilClient = ''nil http client''"
| "Error NilRequest = ''nil request''"
| "Error (InvalidDestination ty) =
     ''dest must be a non-nil pointer. retrieved dest type: '' @ ty"
| "Error (RateLimitWaitFailed err) = ''rate limiter wait failed: '' @ Error err"
| "Error (UnexpectedStatus expected st body) =
     ''expected status code(s) ['' @ show_ints expected @ ''] but got '' @ show_int st
       @ ''. body: '' @ body"
| "Error (DecodeError err body) =
     ''fail to unmarshal response body into dest. err: '' @ Error err @ ''. body: '' @ body"
| "Error (RetriesExhausted n err) =
     ''retries exhausted after '' @ show_int n @ '' attempt(s): '' @ Error err"

section \<open>Reading the log\<close>

text \<open>The tries of a run, in order: the try number and the retry codes of each entry into \<open>do\<close>.\<close>

fun tries :: "event list \<Rightarrow> (go_int \<times> go_int list) list" where
  "tries [] = []"
| "tries (Call_do t codes # es) = (t, codes) # tries es"
| "tries (e # es) = tries es"

text \<open>What the calls of \<open>do\<close> have returned to the loop, in order.\<close>

fun outcomes :: "event list \<Rightarrow> (bool \<times> error option) list" where
  "outcomes [] = []"
| "outcomes (Return_do shouldRetry err # es) = (shouldRetry, err) # outcomes es"
| "outcomes (e # es) = outcomes es"

text \<open>
  What the caller has configured: the attempts after the first and the retry status codes
  behind \<open>opts.Retry\<close>, a nil \<open>opts\<close> or a nil \<open>opts.Retry\<close> standing for no attempts and no
  codes; and the expected status codes as \<open>do\<close> takes them, 200 when none are given.
\<close>

definition configured_attempts :: "Options option \<Rightarrow> go_int" where
  "configured_attempts opts =
     (case opts of
        None \<Rightarrow> 0
      | Some opt \<Rightarrow> (case Retry opt of None \<Rightarrow> 0 | Some rc \<Rightarrow> Attempts rc))"

definition configured_retry_codes :: "Options option \<Rightarrow> go_int list" where
  "configured_retry_codes opts =
     (case opts of
        None \<Rightarrow> []
      | Some opt \<Rightarrow> (case Retry opt of None \<Rightarrow> [] | Some rc \<Rightarrow> RetryStatusCodes rc))"

definition configured_expected :: "Options option \<Rightarrow> go_int list" where
  "configured_expected opts =
     (case opts of
        None \<Rightarrow> [200]
      | Some opt \<Rightarrow> (if ExpectedStatusCodes opt = [] then [200] else ExpectedStatusCodes opt))"

definition configured_limiter :: "Options option \<Rightarrow> limiter option" where
  "configured_limiter opts = (case opts of None \<Rightarrow> None | Some opt \<Rightarrow> RateLimiter opt)"

text \<open>The attempts after the first as line 193 leaves them: a negative count stands for 0.\<close>

definition effective_attempts :: "Options option \<Rightarrow> go_int" where
  "effective_attempts opts =
     (if configured_attempts opts <s 0 then 0 else configured_attempts opts)"

text \<open>The limiter, if there is one, never makes a wait on the request's context fail.\<close>

definition limiter_grants :: "limiter option \<Rightarrow> request \<Rightarrow> bool" where
  "limiter_grants rateLimiter rq =
     (\<forall>lim c k. rateLimiter = Some lim \<longrightarrow> req_Context rq = Some c \<longrightarrow> Wait lim k c = None)"

section \<open>Test doubles\<close>

text \<open>
  Stand-ins for the collaborators, for running the model on concrete inputs. \<open>toy_codec\<close>
  takes a body for JSON when it starts with a brace, re-encodes by putting a tab in front,
  and decodes into a pointer by storing the body.
\<close>

definition toy_is_json :: "string \<Rightarrow> bool" where
  "toy_is_json body = (case body of [] \<Rightarrow> False | c # cs \<Rightarrow> c = CHR ''{'')"

definition toy_codec :: "(string, string) codec" where
  "toy_codec =
     \<lparr>Unmarshal_any = (\<lambda>body. if toy_is_json body then Inr body else Inl ''invalid character''),
      MarshalIndent = (\<lambda>raw. Inr (CHR 0x09 # raw)),
      Unmarshal = (\<lambda>body dest.
        case dest of
          Pointer ty v \<Rightarrow>
            if toy_is_json body then (None, Pointer ty body)
            else (Some ''invalid character'', dest)
        | _ \<Rightarrow> (Some ''json: Unmarshal(non-pointer)'', dest))\<rparr>"

text \<open>A server that answers every request with the same status and body, and one that
  answers the first \<open>n\<close> requests with one response and the later ones with another.\<close>

definition always :: "go_int \<Rightarrow> string \<Rightarrow> client" where
  "always st body = Client (\<lambda>k. Response st body)"

definition first_then :: "nat \<Rightarrow> go_int \<Rightarrow> string \<Rightarrow> go_int \<Rightarrow> string \<Rightarrow> client" where
  "first_then n st body st' body' =
     Client (\<lambda>k. if k < n then Response st body else Response st' body')"

text \<open>Options with the default expected codes, no limiter, and \<open>n\<close> attempts after the
  first on status 503.\<close>

definition retry_opts :: "go_int \<Rightarrow> Options option" where
  "retry_opts n =
     Some \<lparr>ExpectedStatusCodes = [],
           Retry = Some \<lparr>Attempts = n, RetryStatusCodes = [503]\<rparr>,
           RateLimiter = None\<rparr>"

text \<open>A server that answers its first requests as listed and the later ones all alike.\<close>

definition answers :: "http_outcome list \<Rightarrow> http_outcome \<Rightarrow> client" where
  "answers xs d = Client (\<lambda>k. if k < length xs then xs ! k else d)"

text \<open>A server whose responses have a status but a body that cannot be read.\<close>

definition unreadable :: "go_int \<Rightarrow> string \<Rightarrow> client" where
  "unreadable st err = Client (\<lambda>k. BodyReadError st err)"

text \<open>
  A limiter with a burst of 0, which refuses every wait with an error of its own whatever
  the context is, and a limiter that grants its first \<open>n\<close> waits and refuses the later
  ones because the wait would run past the context's deadline.
\<close>

definition burst0_limiter :: limiter where
  "burst0_limiter = Limiter (\<lambda>k c. Some ''rate: Wait(n=1) exceeds limiter's burst 0'')"

definition refusing_from :: "nat \<Rightarrow> limiter" where
  "refusing_from n =
     Limiter (\<lambda>k c. if k < n then None
                     else Some ''rate: Wait(n=1) would exceed context deadline'')"

text \<open>The options of \<open>retry_opts\<close> with a limiter, and a request with a live context.\<close>

definition limited_retry_opts :: "limiter \<Rightarrow> go_int \<Rightarrow> Options option" where
  "limited_retry_opts lim n =
     Some \<lparr>ExpectedStatusCodes = [],
           Retry = Some \<lparr>Attempts = n, RetryStatusCodes = [503]\<rparr>,
           RateLimiter = Some lim\<rparr>"

definition live_request :: request where
  "live_request = Request (Some (Context None))"

text \<open>A limiter that gives up exactly when the context is done, with the context's error.\<close>

definition ctx_limiter :: limiter where
  "ctx_limiter = Limiter (\<lambda>k ctx. ctx_Err ctx)"

section \<open>Running the model\<close>

lemmas eval_defs =
  exec_def exec_loop.simps do_def normalize_retry_def new_RetryConfig_def new_Options_def
  limiter_wait_def always_def first_then_def ctx_limiter_def sends_def waits_def Let_def
  errRespBody_def errRespBody_events_def toy_codec_def toy_is_json_def retry_opts_def
  answers_def unreadable_def burst0_limiter_def refusing_from_def limited_retry_opts_def live_request_def
  word_sle_eq word_sless_alt

text \<open>How the log is read across appends.\<close>

lemma tries_append [simp]: "tries (xs @ ys) = tries xs @ tries ys"
  by (induction xs rule: tries.induct) simp_all

lemma outcomes_append [simp]: "outcomes (xs @ ys) = outcomes xs @ outcomes ys"
  by (induction xs rule: outcomes.induct) simp_all

lemma sends_append [simp]: "sends (xs @ ys) = sends xs + sends ys"
  by (simp add: sends_def)

lemma sends_Nil [simp]: "sends [] = 0"
  by (simp add: sends_def)

lemma sends_Cons [simp]: "sends (e # es) = (if e = Transport_Send then Suc (sends es) else sends es)"
  by (simp add: sends_def)

section \<open>The single-attempt executor\<close>

text \<open>
  C9. \<open>do\<close> never returns \<open>shouldRetry = true\<close> together with an error: whenever its first
  result is true, its second is nil. So every return is \<open>(true, nil)\<close> or \<open>(false, e)\<close>.
\<close>

theorem do_never_retries_with_error:
  "fst (fst (do cd httpClient rateLimiter req dest expected codes log)) \<longrightarrow>
   snd (fst (do cd httpClient rateLimiter req dest expected codes log)) = None"
  by (simp add: do_def Let_def split: option.splits prod.splits http_outcome.splits)

theorem do_never_retries_with_error_witness:
  "fst (fst (do toy_codec (Some (always 503 ''down'')) None (Some (Request None))
               (Pointer ''*T'' ''old'') [200] [503] [])) \<and>
   snd (fst (do toy_codec (Some (always 503 ''down'')) None (Some (Request None))
               (Pointer ''*T'' ''old'') [200] [503] [])) = None"
proof -
  have h: "fst (fst (do toy_codec (Some (always 503 ''down'')) None (Some (Request None))
               (Pointer ''*T'' ''old'') [200] [503] []))"
    by (simp add: eval_defs)
  show ?thesis
    using h do_never_retries_with_error [of toy_codec "Some (always 503 ''down'')" None
      "Some (Request None)" "Pointer ''*T'' ''old''" "[200]" "[503]" "[]"]
    by simp
qed

text \<open>
  C7, as the claim has it, fails for a response whose body cannot be read: the body is
  read (line 253) before the status is looked up in the retry codes (line 258), so a
  response with a retry status and an unreadable body makes \<open>do\<close> return \<open>false\<close> and the
  read error.
\<close>

theorem retry_status_unreadable_counterexample:
  "client_Do (unreadable 503 ''unexpected EOF'') 0 = BodyReadError 503 ''unexpected EOF'' \<and>
   503 \<in> set [503 :: go_int] \<and>
   do toy_codec (Some (unreadable 503 ''unexpected EOF'')) None (Some (Request None))
      (NilInterface :: string dest) [] [503] [] =
     ((False, Some (External ''unexpected EOF'')), NilInterface,
      [Transport_Send, Body_ReadAll])"
  by (simp add: eval_defs)

text \<open>
  C7, amended. For every response whose body has been read and whose status is among the
  retry codes given to \<open>do\<close> (a response being what the transport answers once the attempt
  has reached the send: client and request are there, and the wait on the limiter, if there
  is one, has not failed), \<open>do\<close> returns \<open>(true, nil)\<close> right after reading the body:
  whatever the expected codes and the destination are, the destination is left as it was
  and the log grows by the wait (if any), the send and the body read only, so the codec is
  called neither for the diagnostic text nor for decoding.
\<close>

theorem retry_status_returns_at_once:
  assumes "limiter_wait rateLimiter (req_Context rq) log = (None, log1)"
      and "client_Do cl (sends log1) = Response st body"
      and "st \<in> set codes"
  shows "do cd (Some cl) rateLimiter (Some rq) dest expected codes log =
           ((True, None), dest, log1 @ [Transport_Send, Body_ReadAll]) \<and>
         (log1 = log \<or> log1 = log @ [Limiter_Wait])"
  using assms
  by (auto simp: do_def Let_def limiter_wait_def split: option.splits)

theorem retry_status_returns_at_once_witness:
  "do toy_codec (Some (always 503 ''{}'')) None (Some (Request None)) (Pointer ''*T'' ''old'')
      [503] [503] [] =
     ((True, None), Pointer ''*T'' ''old'', [] @ [Transport_Send, Body_ReadAll])"
proof -
  have w: "limiter_wait None (req_Context (Request None)) [] = (None, [])"
    by (simp add: limiter_wait_def)
  have r: "client_Do (always 503 ''{}'') (sends []) = Response 503 ''{}''"
    by (simp add: always_def)
  have m: "(503 :: go_int) \<in> set [503]"
    by simp
  show ?thesis
    using retry_status_returns_at_once [OF w r m, of toy_codec "Pointer ''*T'' ''old''" "[503]"]
    by simp
qed

text \<open>
  C8. The body text in an \<open>UnexpectedStatus\<close> or a \<open>DecodeError\<close> that \<open>do\<close> returns is the
  diagnostic text of the body of the response to this attempt's send, and \<open>do\<close> does build
  these errors: when the attempt has reached the send and the transport has answered with
  a response whose body is read and whose status is not among the retry codes, an
  unexpected status makes \<open>do\<close> return \<open>UnexpectedStatus\<close> with the expected codes, the
  status and the diagnostic text, and an expected status with a destination into which the
  body does not decode makes it return \<open>DecodeError\<close> with the decode error and the
  diagnostic text. The diagnostic text of a body is the body itself, unchanged, when the
  body does not parse as JSON, and the indented re-encoding of the parsed value when it
  does (\<open>encoding/json\<close> re-encodes what it has decoded into an \<open>any\<close>; should a codec fail
  to, lines 265 to 267 keep the body itself).
\<close>

theorem error_body_is_diagnostic_text:
  "(do cd httpClient rateLimiter req dest expected codes log = ((sr, Some e), dest', log') \<and>
    (e = UnexpectedStatus ex s dtext \<or> e = DecodeError cause dtext) \<longrightarrow>
      (\<exists>cl st body. httpClient = Some cl \<and> client_Do cl (sends log) = Response st body \<and>
         dtext = errRespBody cd body)) \<and>
   (httpClient = Some cl \<and> req = Some rq \<and>
    limiter_wait rateLimiter (req_Context rq) log = (None, wlog) \<and>
    client_Do cl (sends wlog) = Response st body \<and> st \<notin> set codes \<longrightarrow>
      (st \<notin> set (if expected = [] then [200] else expected) \<longrightarrow>
         fst (do cd httpClient rateLimiter req dest expected codes log) =
           (False, Some (UnexpectedStatus (if expected = [] then [200] else expected) st
                           (errRespBody cd body)))) \<and>
      (st \<in> set (if expected = [] then [200] else expected) \<longrightarrow>
         dest \<noteq> NilInterface \<longrightarrow> fst (Unmarshal cd body dest) = Some err \<longrightarrow>
         fst (do cd httpClient rateLimiter req dest expected codes log) =
           (False, Some (DecodeError (External err) (errRespBody cd body))))) \<and>
   (Unmarshal_any cd b = Inl uerr \<longrightarrow> errRespBody cd b = b) \<and>
   (Unmarshal_any cd b = Inr raw \<longrightarrow> MarshalIndent cd raw = Inr pretty \<longrightarrow>
      errRespBody cd b = pretty)"
proof (intro conjI impI)
  assume "do cd httpClient rateLimiter req dest expected codes log = ((sr, Some e), dest', log') \<and>
    (e = UnexpectedStatus ex s dtext \<or> e = DecodeError cause dtext)"
  then show "\<exists>cl st body. httpClient = Some cl \<and> client_Do cl (sends log) = Response st body \<and>
         dtext = errRespBody cd body"
    by (auto simp: do_def Let_def limiter_wait_def
          split: option.splits prod.splits http_outcome.splits if_splits)
next
  assume h: "httpClient = Some cl \<and> req = Some rq \<and>
    limiter_wait rateLimiter (req_Context rq) log = (None, wlog) \<and>
    client_Do cl (sends wlog) = Response st body \<and> st \<notin> set codes"
  {
    assume "st \<notin> set (if expected = [] then [200] else expected)"
    with h show "fst (do cd httpClient rateLimiter req dest expected codes log) =
        (False, Some (UnexpectedStatus (if expected = [] then [200] else expected) st
                        (errRespBody cd body)))"
      by (simp add: do_def Let_def)
  }
  {
    assume "st \<in> set (if expected = [] then [200] else expected)" "dest \<noteq> NilInterface"
      "fst (Unmarshal cd body dest) = Some err"
    with h show "fst (do cd httpClient rateLimiter req dest expected codes log) =
        (False, Some (DecodeError (External err) (errRespBody cd body)))"
      by (auto simp: do_def Let_def split: prod.splits)
  }
next
  assume "Unmarshal_any cd b = Inl uerr"
  then show "errRespBody cd b = b"
    by (simp add: errRespBody_def)
next
  assume "Unmarshal_any cd b = Inr raw" "MarshalIndent cd raw = Inr pretty"
  then show "errRespBody cd b = pretty"
    by (simp add: errRespBody_def)
qed

theorem error_body_is_diagnostic_text_witness:
  "fst (do toy_codec (Some (always 400 ''bad request'')) None (Some (Request None))
          (NilInterface :: string dest) [] [] []) =
     (False, Some (UnexpectedStatus [200] 400 ''bad request'')) \<and>
   fst (do toy_codec (Some (always 400 ''{}'')) None (Some (Request None))
          (NilInterface :: string dest) [] [] []) =
     (False, Some (UnexpectedStatus [200] 400 (CHR 0x09 # ''{}''))) \<and>
   fst (do toy_codec (Some (always 200 ''not json'')) None (Some (Request None))
          (Pointer ''*T'' ''old'') [] [] []) =
     (False, Some (DecodeError (External ''invalid character'') ''not json''))"
proof -
  have w: "limiter_wait None (req_Context (Request None)) [] = (None, [])"
    by (simp add: limiter_wait_def)
  have r1: "client_Do (always 400 ''bad request'') (sends []) = Response 400 ''bad request''"
    and r2: "client_Do (always 400 ''{}'') (sends []) = Response 400 ''{}''"
    and r3: "client_Do (always 200 ''not json'') (sends []) = Response 200 ''not json''"
    by (simp_all add: always_def)
  have p1: "Unmarshal_any toy_codec ''bad request'' = Inl ''invalid character''"
    and p2: "Unmarshal_any toy_codec ''{}'' = Inr ''{}''"
    and m2: "MarshalIndent toy_codec ''{}'' = Inr (CHR 0x09 # ''{}'')"
    and p3: "Unmarshal_any toy_codec ''not json'' = Inl ''invalid character''"
    and d3: "fst (Unmarshal toy_codec ''not json'' (Pointer ''*T'' ''old'')) =
             Some ''invalid character''"
    by (simp_all add: toy_codec_def toy_is_json_def)
  have a: "fst (do toy_codec (Some (always 400 ''bad request'')) None (Some (Request None))
          (NilInterface :: string dest) [] [] []) =
     (False, Some (UnexpectedStatus [200] 400 ''bad request''))"
    using error_body_is_diagnostic_text [where cd = toy_codec
        and httpClient = "Some (always 400 ''bad request'')" and cl = "always 400 ''bad request''"
        and rateLimiter = None and req = "Some (Request None)" and rq = "Request None"
        and log = "[]" and wlog = "[]" and st = 400 and body = "''bad request''"
        and codes = "[]" and dest = "NilInterface :: string dest" and expected = "[]"
        and b = "''bad request''" and uerr = "''invalid character''"] w r1 p1
    by simp
  have b: "fst (do toy_codec (Some (always 400 ''{}'')) None (Some (Request None))
          (NilInterface :: string dest) [] [] []) =
     (False, Some (UnexpectedStatus [200] 400 (CHR 0x09 # ''{}'')))"
    using error_body_is_diagnostic_text [where cd = toy_codec
        and httpClient = "Some (always 400 ''{}'')" and cl = "always 400 ''{}''"
        and rateLimiter = None and req = "Some (Request None)" and rq = "Request None"
        and log = "[]" and wlog = "[]" and st = 400 and body = "''{}''"
        and codes = "[]" and dest = "NilInterface :: string dest" and expected = "[]"
        and b = "''{}''" and raw = "''{}''" and pretty = "CHR 0x09 # ''{}''"] w r2 p2 m2
    by simp
  have c: "fst (do toy_codec (Some (always 200 ''not json'')) None (Some (Request None))
          (Pointer ''*T'' ''old'') [] [] []) =
     (False, Some (DecodeError (External ''invalid character'') ''not json''))"
    using error_body_is_diagnostic_text [where cd = toy_codec
        and httpClient = "Some (always 200 ''not json'')" and cl = "always 200 ''not json''"
        and rateLimiter = None and req = "Some (Request None)" and rq = "Request None"
        and log = "[]" and wlog = "[]" and st = 200 and body = "''not json''"
        and codes = "[]" and dest = "Pointer ''*T'' ''old''" and expected = "[]"
        and err = "''invalid character''"
        and b = "''not json''" and uerr = "''invalid character''"] w r3 p3 d3
    by simp
  from a b c show ?thesis by simp
qed




section \<open>The attempt loop: before the first try\<close>

text \<open>
  C10. When \<open>validateDest\<close> is true and the destination is not a non-nil pointer, \<open>exec\<close>
  returns the destination error at once: the caller's options are as they were (nothing
  has been normalized), the log is as it was (no wait on the limiter, nothing sent), and
  the error is the bare \<open>InvalidDestination\<close>, never wrapped, whatever the options say
  about attempts.
\<close>

theorem invalid_destination_rejected_first:
  assumes "\<not> is_non_nil_pointer dest"
  shows "exec cd client req dest True opts log =
           \<lparr>returned = Some (InvalidDestination (type_name dest)), opts_after = opts,
            dest_after = dest, log_after = log\<rparr>"
  using assms by (simp add: exec_def)

theorem invalid_destination_rejected_first_witness:
  "exec toy_codec (Some (always 200 ''{}'')) (Some (Request None)) (NilPointer ''*T'') True
      (Some \<lparr>ExpectedStatusCodes = [], Retry = Some \<lparr>Attempts = - 1, RetryStatusCodes = [503]\<rparr>,
             RateLimiter = Some ctx_limiter\<rparr>) [] =
     \<lparr>returned = Some (InvalidDestination (type_name (NilPointer ''*T'' :: string dest))),
      opts_after = Some \<lparr>ExpectedStatusCodes = [],
                    Retry = Some \<lparr>Attempts = - 1, RetryStatusCodes = [503]\<rparr>,
                    RateLimiter = Some ctx_limiter\<rparr>,
      dest_after = NilPointer ''*T'', log_after = []\<rparr>"
proof -
  have h: "\<not> is_non_nil_pointer (NilPointer ''*T'' :: string dest)"
    by simp
  show ?thesis
    by (rule invalid_destination_rejected_first [OF h])
qed

text \<open>
  C3, as the claim has it, fails: \<open>exec\<close> normalizes the options through the pointer it
  was given. A caller who passes options without a retry configuration finds one there
  afterwards, and a caller who passes a negative attempts count finds 0 there.
\<close>

theorem options_unchanged_counterexample:
  "opts_after (exec toy_codec (Some (always 200 ''{}'')) (Some (Request None))
      (NilInterface :: string dest) False
      (Some \<lparr>ExpectedStatusCodes = [200], Retry = None, RateLimiter = None\<rparr>) [])
   \<noteq> Some \<lparr>ExpectedStatusCodes = [200], Retry = None, RateLimiter = None\<rparr>
   \<and> opts_after (exec toy_codec (Some (always 200 ''{}'')) (Some (Request None))
      (NilInterface :: string dest) False
      (Some \<lparr>ExpectedStatusCodes = [200],
             Retry = Some \<lparr>Attempts = - 5, RetryStatusCodes = [503]\<rparr>,
             RateLimiter = None\<rparr>) [])
   = Some \<lparr>ExpectedStatusCodes = [200],
            Retry = Some \<lparr>Attempts = 0, RetryStatusCodes = [503]\<rparr>,
            RateLimiter = None\<rparr>"
  by (simp add: eval_defs)

text \<open>
  C3, amended. A call of \<open>exec\<close> leaves the caller's options as follows. Nil options stay
  nil. Otherwise the expected status codes and the rate limiter are unchanged; when the
  destination check rejects the call the whole value is unchanged; when it does not, a
  missing retry configuration has become a fresh one (no attempts, no codes), and a present
  one keeps its retry status codes and has its attempts count overwritten with 0 when that
  was negative. So options that carry a retry configuration with attempts at least 0 are
  unchanged.
\<close>

theorem options_after_call:
  "(opts = None \<longrightarrow> opts_after (exec cd client req dest validateDest opts log) = None) \<and>
   (\<forall>opt. opts = Some opt \<longrightarrow>
      (\<exists>opt'. opts_after (exec cd client req dest validateDest opts log) = Some opt' \<and>
         ExpectedStatusCodes opt' = ExpectedStatusCodes opt \<and>
         RateLimiter opt' = RateLimiter opt \<and>
         (validateDest \<and> \<not> is_non_nil_pointer dest \<longrightarrow> opt' = opt) \<and>
         (\<not> (validateDest \<and> \<not> is_non_nil_pointer dest) \<longrightarrow>
            (Retry opt = None \<longrightarrow>
               Retry opt' = Some \<lparr>Attempts = 0, RetryStatusCodes = []\<rparr>) \<and>
            (\<forall>rc. Retry opt = Some rc \<longrightarrow>
               Retry opt' = Some (if Attempts rc <s 0 then rc\<lparr>Attempts := 0\<rparr> else rc))) \<and>
         (\<forall>rc. Retry opt = Some rc \<longrightarrow> 0 \<le>s Attempts rc \<longrightarrow> opt' = opt)))"
  by (auto simp: exec_def Let_def normalize_retry_def new_RetryConfig_def
        word_sle_eq word_sless_alt split: prod.splits)

theorem options_after_call_witness:
  "opts_after (exec toy_codec (Some (always 200 ''{}'')) (Some (Request None))
      (NilInterface :: string dest) False
      (Some \<lparr>ExpectedStatusCodes = [200],
             Retry = Some \<lparr>Attempts = 2, RetryStatusCodes = [503]\<rparr>,
             RateLimiter = None\<rparr>) [])
   = Some \<lparr>ExpectedStatusCodes = [200],
            Retry = Some \<lparr>Attempts = 2, RetryStatusCodes = [503]\<rparr>,
            RateLimiter = None\<rparr>"
  using options_after_call [of
      "Some \<lparr>ExpectedStatusCodes = [200],
             Retry = Some \<lparr>Attempts = 2, RetryStatusCodes = [503]\<rparr>,
             RateLimiter = None\<rparr>"
      toy_codec "Some (always 200 ''{}'')" "Some (Request None)" "NilInterface :: string dest"
      False "[]"]
  by (auto simp: word_sle_eq)

section \<open>The attempt loop: the tries\<close>

lemma sint_succ:
  fixes x y :: go_int
  assumes "x \<le>s y" and "x \<noteq> y"
  shows "sint (x + 1) = sint x + 1"
proof -
  have "sint x \<le> sint y" using assms(1) by (simp add: word_sle_eq)
  moreover have "sint x \<noteq> sint y" using assms(2) by (auto dest: signed_word_eqI)
  moreover have "sint y < 2 ^ 63" using sint_lt [of y] by simp
  moreover have "- (2 ^ 63) \<le> sint x" using sint_ge [of x] by simp
  ultimately have b: "- (2 ^ 63) \<le> sint x + 1" "sint x + 1 < 2 ^ 63" by linarith+
  have "sint (x + 1) = signed_take_bit 63 (sint x + 1)"
    by (simp add: sint_word_ariths)
  also have "\<dots> = sint x + 1"
    using b by (simp add: signed_take_bit_int_eq_self)
  finally show ?thesis .
qed

lemma do_log:
  assumes "do cd client rl req dest exp codes log = (res, dest', log')"
  shows "tries log' = tries log \<and> outcomes log' = outcomes log"
  using assms
  by (auto simp: do_def Let_def limiter_wait_def errRespBody_events_def
           split: option.splits prod.splits http_outcome.splits if_splits sum.splits)

lemma do_retry:
  assumes "do cd client rl req dest exp codes log = ((True, r), dest', log')"
  shows "r = None \<and> dest' = dest \<and> sends log' = Suc (sends log) \<and>
         (\<exists>cl st body. client = Some cl \<and> client_Do cl (sends log) = Response st body \<and>
            st \<in> set codes)"
  using assms
  by (auto simp: do_def Let_def limiter_wait_def
           split: option.splits prod.splits http_outcome.splits if_splits)

text \<open>One turn of the loop.\<close>

lemma exec_loop_cases [consumes 0, case_names over failed stopped retried]:
  obtains
    "\<not> t \<le>s totalTries"
    "exec_loop cd client req opts rc totalTries t dest log = (None, dest, log)"
  | sr e d l where
    "t \<le>s totalTries"
    "do cd client (RateLimiter opts) req dest (ExpectedStatusCodes opts)
        (if t = totalTries then [] else RetryStatusCodes rc)
        (log @ [Call_do t (if t = totalTries then [] else RetryStatusCodes rc)]) = ((sr, Some e), d, l)"
    "exec_loop cd client req opts rc totalTries t dest log =
       (Some (if 0 <s Attempts rc then RetriesExhausted (Attempts rc) e else e), d,
        l @ [Return_do sr (Some e)])"
  | d l where
    "t \<le>s totalTries"
    "do cd client (RateLimiter opts) req dest (ExpectedStatusCodes opts)
        (if t = totalTries then [] else RetryStatusCodes rc)
        (log @ [Call_do t (if t = totalTries then [] else RetryStatusCodes rc)]) = ((False, None), d, l)"
    "exec_loop cd client req opts rc totalTries t dest log = (None, d, l @ [Return_do False None])"
  | l where
    "t \<le>s totalTries" "t \<noteq> totalTries" "sint (t + 1) = sint t + 1"
    "do cd client (RateLimiter opts) req dest (ExpectedStatusCodes opts)
        (RetryStatusCodes rc) (log @ [Call_do t (RetryStatusCodes rc)]) = ((True, None), dest, l)"
    "exec_loop cd client req opts rc totalTries t dest log =
       exec_loop cd client req opts rc totalTries (t + 1) dest (l @ [Return_do True None])"
proof (cases "t \<le>s totalTries")
  case False
  then show ?thesis using that(1) by (simp add: exec_loop.simps)
next
  case le: True
  obtain sr r d l where d: "do cd client (RateLimiter opts) req dest (ExpectedStatusCodes opts)
        (if t = totalTries then [] else RetryStatusCodes rc)
        (log @ [Call_do t (if t = totalTries then [] else RetryStatusCodes rc)]) = ((sr, r), d, l)"
    by (metis prod.exhaust)
  show ?thesis
  proof (cases r)
    case (Some e)
    with le d show ?thesis using that(2) [of sr e d l]
      by (simp add: exec_loop.simps [of cd client req opts rc totalTries t] Let_def)
  next
    case None
    show ?thesis
    proof (cases sr)
      case False
      with le d None show ?thesis using that(3) [of d l]
        by (simp add: exec_loop.simps [of cd client req opts rc totalTries t] Let_def)
    next
      case True
      from d True have "do cd client (RateLimiter opts) req dest (ExpectedStatusCodes opts)
        (if t = totalTries then [] else RetryStatusCodes rc)
        (log @ [Call_do t (if t = totalTries then [] else RetryStatusCodes rc)]) = ((True, r), d, l)"
        by simp
      from do_retry [OF this] have dd: "d = dest" and ne: "t \<noteq> totalTries"
        by (auto split: if_splits)
      from le ne have "sint (t + 1) = sint t + 1" by (rule sint_succ)
      with le d None True dd ne show ?thesis using that(4) [of l]
        by (simp add: exec_loop.simps [of cd client req opts rc totalTries t] Let_def)
    qed
  qed
qed


text \<open>Induction along the tries of the loop.\<close>

lemma exec_loop_tries_induct [consumes 0, case_names turn]:
  assumes turn: "\<And>t log.
     (\<And>l. t \<le>s totalTries \<Longrightarrow> t \<noteq> totalTries \<Longrightarrow>
         do cd client (RateLimiter opts) req dest (ExpectedStatusCodes opts)
           (RetryStatusCodes rc) (log @ [Call_do t (RetryStatusCodes rc)]) = ((True, None), dest, l) \<Longrightarrow>
         P (t + 1) (l @ [Return_do True None])) \<Longrightarrow> P t log"
  shows "P t log"
proof -
  have "nat (sint totalTries - sint t + 1) \<le> n \<Longrightarrow> P t log" for n
  proof (induction n arbitrary: t log)
    case 0
    show ?case
    proof (rule turn)
      fix l
      assume "t \<le>s totalTries"
      with 0 show "P (t + 1) (l @ [Return_do True None])"
        by (simp add: word_sle_eq)
    qed
  next
    case (Suc n)
    show ?case
    proof (rule turn)
      fix l
      assume le: "t \<le>s totalTries" and ne: "t \<noteq> totalTries"
      from le ne have "sint (t + 1) = sint t + 1" by (rule sint_succ)
      with Suc.prems le have "nat (sint totalTries - sint (t + 1) + 1) \<le> n"
        by (simp add: word_sle_eq)
      then show "P (t + 1) (l @ [Return_do True None])" by (rule Suc.IH)
    qed
  qed
  then show ?thesis by blast
qed

lemma exec_loop_outcomes:
  assumes "exec_loop cd client req opts rc totalTries t dest log = (res, dest', log')"
      and "\<forall>x\<in>set (outcomes log). x = (True, None)"
  shows "\<forall>x\<in>set (butlast (outcomes log')). x = (True, None)"
  using assms
proof (induction t log rule: exec_loop_tries_induct [where cd = cd and client = client
         and req = req and opts = opts and rc = rc and totalTries = totalTries and dest = dest])
  case (turn t log)
  show ?case
  proof (cases rule: exec_loop_cases [of t totalTries cd client req opts rc dest log])
    case over
    with turn.prems show ?thesis by (auto dest: in_set_butlastD)
  next
    case (failed sr e d l)
    from do_log [OF failed(2)] failed(3) turn.prems show ?thesis by auto
  next
    case (stopped d l)
    from do_log [OF stopped(2)] stopped(3) turn.prems show ?thesis by auto
  next
    case (retried l)
    from do_log [OF retried(4)] turn.prems(2)
    have "\<forall>x\<in>set (outcomes (l @ [Return_do True None])). x = (True, None)" by auto
    moreover from retried(5) turn.prems(1)
    have "exec_loop cd client req opts rc totalTries (t + 1) dest (l @ [Return_do True None])
            = (res, dest', log')" by simp
    ultimately show ?thesis
      using turn.IH [OF retried(1,2,4)] by blast
  qed
qed


lemma exec_loop_lengths:
  assumes "exec_loop cd client req opts rc totalTries t dest log = (res, dest', log')"
      and "length (tries log) = length (outcomes log)"
  shows "length (tries log') = length (outcomes log')"
  using assms
proof (induction t log rule: exec_loop_tries_induct [where cd = cd and client = client
         and req = req and opts = opts and rc = rc and totalTries = totalTries and dest = dest])
  case (turn t log)
  show ?case
  proof (cases rule: exec_loop_cases [of t totalTries cd client req opts rc dest log])
    case over
    with turn.prems show ?thesis by simp
  next
    case (failed sr e d l)
    from do_log [OF failed(2)] failed(3) turn.prems show ?thesis by auto
  next
    case (stopped d l)
    from do_log [OF stopped(2)] stopped(3) turn.prems show ?thesis by auto
  next
    case (retried l)
    from do_log [OF retried(4)] turn.prems(2)
    have "length (tries (l @ [Return_do True None])) = length (outcomes (l @ [Return_do True None]))"
      by simp
    moreover from retried(5) turn.prems(1)
    have "exec_loop cd client req opts rc totalTries (t + 1) dest (l @ [Return_do True None])
            = (res, dest', log')" by simp
    ultimately show ?thesis
      using turn.IH [OF retried(1,2,4)] by blast
  qed
qed

lemma exec_loop_error:
  assumes "exec_loop cd client req opts rc totalTries t dest log = (res, dest', log')"
      and "\<forall>x\<in>set (outcomes log). x = (True, None)"
      and "(sr, Some e) \<in> set (outcomes log')"
  shows "res = Some (if 0 <s Attempts rc then RetriesExhausted (Attempts rc) e else e)"
  using assms
proof (induction t log rule: exec_loop_tries_induct [where cd = cd and client = client
         and req = req and opts = opts and rc = rc and totalTries = totalTries and dest = dest])
  case (turn t log)
  show ?case
  proof (cases rule: exec_loop_cases [of t totalTries cd client req opts rc dest log])
    case over
    with turn.prems show ?thesis by auto
  next
    case (failed sr' e' d l)
    from do_log [OF failed(2)] failed(3) turn.prems show ?thesis by auto
  next
    case (stopped d l)
    from do_log [OF stopped(2)] stopped(3) turn.prems show ?thesis by auto
  next
    case (retried l)
    from do_log [OF retried(4)] turn.prems(2)
    have "\<forall>x\<in>set (outcomes (l @ [Return_do True None])). x = (True, None)" by auto
    moreover from retried(5) turn.prems(1)
    have "exec_loop cd client req opts rc totalTries (t + 1) dest (l @ [Return_do True None])
            = (res, dest', log')" by simp
    ultimately show ?thesis
      using turn.IH [OF retried(1,2,4)] turn.prems(3) by blast
  qed
qed

lemma exec_loop_codes:
  assumes "exec_loop cd client req opts rc totalTries t dest log = (res, dest', log')"
      and "\<forall>x\<in>set (tries log). snd x = (if fst x = totalTries then [] else RetryStatusCodes rc)"
  shows "\<forall>x\<in>set (tries log'). snd x = (if fst x = totalTries then [] else RetryStatusCodes rc)"
  using assms
proof (induction t log rule: exec_loop_tries_induct [where cd = cd and client = client
         and req = req and opts = opts and rc = rc and totalTries = totalTries and dest = dest])
  case (turn t log)
  show ?case
  proof (cases rule: exec_loop_cases [of t totalTries cd client req opts rc dest log])
    case over
    with turn.prems show ?thesis by simp
  next
    case (failed sr e d l)
    from do_log [OF failed(2)] failed(3) turn.prems show ?thesis by auto
  next
    case (stopped d l)
    from do_log [OF stopped(2)] stopped(3) turn.prems show ?thesis by auto
  next
    case (retried l)
    from do_log [OF retried(4)] turn.prems(2) retried(2)
    have "\<forall>x\<in>set (tries (l @ [Return_do True None])).
            snd x = (if fst x = totalTries then [] else RetryStatusCodes rc)"
      by auto
    moreover from retried(5) turn.prems(1)
    have "exec_loop cd client req opts rc totalTries (t + 1) dest (l @ [Return_do True None])
            = (res, dest', log')" by simp
    ultimately show ?thesis
      using turn.IH [OF retried(1,2,4)] by blast
  qed
qed

lemma exec_loop_retried:
  assumes "exec_loop cd client req opts rc totalTries t dest log = (res, dest', log')"
      and "sends log = length (tries log)"
      and "\<forall>k<length (tries log). \<exists>cl st body. client = Some cl \<and>
             client_Do cl k = Response st body \<and> st \<in> set (RetryStatusCodes rc)"
  shows "\<forall>k. Suc k < length (tries log') \<longrightarrow> (\<exists>cl st body. client = Some cl \<and>
             client_Do cl k = Response st body \<and> st \<in> set (RetryStatusCodes rc))"
  using assms
proof (induction t log rule: exec_loop_tries_induct [where cd = cd and client = client
         and req = req and opts = opts and rc = rc and totalTries = totalTries and dest = dest])
  case (turn t log)
  show ?case
  proof (cases rule: exec_loop_cases [of t totalTries cd client req opts rc dest log])
    case over
    with turn.prems show ?thesis by simp
  next
    case (failed sr e d l)
    from do_log [OF failed(2)] failed(3) turn.prems show ?thesis by auto
  next
    case (stopped d l)
    from do_log [OF stopped(2)] stopped(3) turn.prems show ?thesis by auto
  next
    case (retried l)
    from do_retry [OF retried(4)] obtain cl st body where
      s: "sends l = Suc (sends log)" and c: "client = Some cl"
      and r: "client_Do cl (sends log) = Response st body" and m: "st \<in> set (RetryStatusCodes rc)"
      by auto
    from do_log [OF retried(4)] have tr: "tries l = tries log @ [(t, RetryStatusCodes rc)]"
      by simp
    have a: "sends (l @ [Return_do True None]) = length (tries (l @ [Return_do True None]))"
      using s tr turn.prems(2) by simp
    have b: "\<forall>k<length (tries (l @ [Return_do True None])). \<exists>cl st body. client = Some cl \<and>
             client_Do cl k = Response st body \<and> st \<in> set (RetryStatusCodes rc)"
    proof (intro allI impI)
      fix k
      assume "k < length (tries (l @ [Return_do True None]))"
      then have "k < length (tries log) \<or> k = sends log"
        using tr turn.prems(2) by auto
      then show "\<exists>cl st body. client = Some cl \<and>
             client_Do cl k = Response st body \<and> st \<in> set (RetryStatusCodes rc)"
        using turn.prems(3) c r m by blast
    qed
    from retried(5) turn.prems(1)
    have "exec_loop cd client req opts rc totalTries (t + 1) dest (l @ [Return_do True None])
            = (res, dest', log')" by simp
    then show ?thesis
      using turn.IH [OF retried(1,2,4)] a b by blast
  qed
qed


text \<open>What \<open>exec\<close> hands to the loop.\<close>

lemma exec_cases [consumes 0, case_names rejected ran]:
  obtains
    "validateDest" "\<not> is_non_nil_pointer dest"
    "exec cd client req dest validateDest opts log =
       \<lparr>returned = Some (InvalidDestination (type_name dest)), opts_after = opts,
        dest_after = dest, log_after = log\<rparr>"
  | opt rc res d l where
    "validateDest \<longrightarrow> is_non_nil_pointer dest"
    "RateLimiter opt = configured_limiter opts"
    "(if ExpectedStatusCodes opt = [] then [200] else ExpectedStatusCodes opt) = configured_expected opts"
    "RetryStatusCodes rc = configured_retry_codes opts"
    "Attempts rc = (if configured_attempts opts <s 0 then 0 else configured_attempts opts)"
    "exec_loop cd client req opt rc (1 + Attempts rc) 1 dest log = (res, d, l)"
    "returned (exec cd client req dest validateDest opts log) = res"
    "dest_after (exec cd client req dest validateDest opts log) = d"
    "log_after (exec cd client req dest validateDest opts log) = l"
proof (cases "validateDest \<and> \<not> is_non_nil_pointer dest")
  case True
  then show ?thesis using that(1) by (simp add: exec_def)
next
  case False
  define opt0 where "opt0 = (case opts of None \<Rightarrow> new_Options | Some opt \<Rightarrow> opt)"
  define rc where "rc = normalize_retry (Retry opt0)"
  define opt where "opt = opt0\<lparr>Retry := Some rc\<rparr>"
  obtain res d l where l: "exec_loop cd client req opt rc (1 + Attempts rc) 1 dest log = (res, d, l)"
    by (metis prod.exhaust)
  have 1: "RateLimiter opt = configured_limiter opts"
    by (simp add: opt_def opt0_def configured_limiter_def new_Options_def split: option.splits)
  have 2: "(if ExpectedStatusCodes opt = [] then [200] else ExpectedStatusCodes opt) = configured_expected opts"
    by (simp add: opt_def opt0_def configured_expected_def new_Options_def split: option.splits)
  have 3: "RetryStatusCodes rc = configured_retry_codes opts"
    by (simp add: rc_def opt0_def configured_retry_codes_def normalize_retry_def Let_def
          new_Options_def new_RetryConfig_def split: option.splits)
  have 4: "Attempts rc = (if configured_attempts opts <s 0 then 0 else configured_attempts opts)"
    by (simp add: rc_def opt0_def configured_attempts_def normalize_retry_def Let_def
          new_Options_def new_RetryConfig_def word_sless_alt split: option.splits)
  have e: "exec cd client req dest validateDest opts log =
       \<lparr>returned = res, opts_after = (case opts of None \<Rightarrow> None | Some _ \<Rightarrow> Some opt),
        dest_after = d, log_after = l\<rparr>"
    using False l by (auto simp: exec_def Let_def opt_def rc_def opt0_def split: option.splits)
  show ?thesis
    using that(2) [OF _ 1 2 3 4 l] False e by simp
qed

lemma in_set_not_butlast:
  assumes "x \<in> set xs" and "x \<notin> set (butlast xs)"
  shows "xs \<noteq> [] \<and> last xs = x"
  using assms by (induction xs) (auto split: if_splits)

text \<open>
  C5. In every run of \<open>exec\<close>: a try on which \<open>do\<close> returns an error is the last try, and
  \<open>exec\<close> then returns an error; every try before the last has returned \<open>(true, nil)\<close>;
  and whenever a try number \<open>k + 2\<close> takes place, the transport has answered send number
  \<open>k\<close> (counted from 0, the send of try \<open>k + 1\<close>) with a response whose status is among
  the configured retry status codes. So a transport failure, a body that cannot be read,
  an unexpected status and a decode failure all end the loop; only a retry status leads to
  another try.
\<close>

theorem only_retry_status_causes_another_try:
  assumes "exec cd client req dest validateDest opts [] = r"
  shows "(\<forall>sr e. (sr, Some e) \<in> set (outcomes (log_after r)) \<longrightarrow>
            last (outcomes (log_after r)) = (sr, Some e) \<and> returned r \<noteq> None) \<and>
         (\<forall>x\<in>set (butlast (outcomes (log_after r))). x = (True, None)) \<and>
         length (outcomes (log_after r)) = length (tries (log_after r)) \<and>
         (\<forall>k. Suc k < length (tries (log_after r)) \<longrightarrow>
            (\<exists>cl st body. client = Some cl \<and> client_Do cl k = Response st body \<and>
               st \<in> set (configured_retry_codes opts)))"
proof (cases rule: exec_cases [of validateDest dest cd client req opts "[]"])
  case rejected
  with assms have "log_after r = []" by auto
  then show ?thesis by simp
next
  case (ran opt rc res d l)
  from ran(7,9) assms have r: "returned r = res" "log_after r = l" by auto
  have b: "\<forall>x\<in>set (butlast (outcomes l)). x = (True, None)"
    by (rule exec_loop_outcomes [OF ran(6)]) simp
  have n: "length (tries l) = length (outcomes l)"
    by (rule exec_loop_lengths [OF ran(6)]) simp
  have k: "\<forall>k. Suc k < length (tries l) \<longrightarrow> (\<exists>cl st body. client = Some cl \<and>
             client_Do cl k = Response st body \<and> st \<in> set (RetryStatusCodes rc))"
    by (rule exec_loop_retried [OF ran(6)]) simp_all
  have e: "last (outcomes l) = (sr, Some e) \<and> res \<noteq> None" if "(sr, Some e) \<in> set (outcomes l)" for sr e
  proof -
    from b that have "(sr, Some e) \<notin> set (butlast (outcomes l))" by auto
    with that have "last (outcomes l) = (sr, Some e)" by (auto dest: in_set_not_butlast)
    moreover have "res \<noteq> None"
      using exec_loop_error [OF ran(6) _ that] by simp
    ultimately show ?thesis by simp
  qed
  show ?thesis
    using b n k e r ran(4) by simp
qed

theorem only_retry_status_causes_another_try_witness:
  "last (outcomes (log_after (exec toy_codec (Some (always 503 ''still down''))
      (Some (Request None)) NilInterface False (retry_opts 2) []))) =
     (False, Some (UnexpectedStatus [200] 503 ''still down'')) \<and>
   returned (exec toy_codec (Some (always 503 ''still down''))
      (Some (Request None)) NilInterface False (retry_opts 2) []) \<noteq> None \<and>
   (\<exists>cl st body. Some (always 503 ''still down'') = Some cl \<and>
      client_Do cl 1 = Response st body \<and> st \<in> set (configured_retry_codes (retry_opts 2)))"
proof -
  have m: "(False, Some (UnexpectedStatus [200] 503 ''still down'')) \<in>
           set (outcomes (log_after (exec toy_codec (Some (always 503 ''still down''))
             (Some (Request None)) NilInterface False (retry_opts 2) [])))"
    by (simp add: eval_defs)
  have n: "Suc 1 < length (tries (log_after (exec toy_codec (Some (always 503 ''still down''))
             (Some (Request None)) NilInterface False (retry_opts 2) [])))"
    by (simp add: eval_defs)
  show ?thesis
    using only_retry_status_causes_another_try [OF refl, where cd = toy_codec
        and client = "Some (always 503 ''still down'')" and req = "Some (Request None)"
        and dest = NilInterface and validateDest = False and opts = "retry_opts 2"] m n
    by blast
qed

text \<open>
  C4, as the claim has it, fails in its first half for a call that the destination check
  rejects: with a negative attempts count and a nil pointer as destination to decode
  into, \<open>exec\<close> returns before the loop, and no try takes place.
\<close>

theorem one_try_rejected_counterexample:
  "configured_attempts (retry_opts (- 1)) \<le>s 0 \<and>
   exec toy_codec (Some (always 200 ''{}'')) (Some (Request None)) (NilPointer ''*T'') True
      (retry_opts (- 1)) [] =
     \<lparr>returned = Some (InvalidDestination ''*T''), opts_after = retry_opts (- 1),
      dest_after = NilPointer ''*T'', log_after = []\<rparr> \<and>
   tries (log_after (exec toy_codec (Some (always 200 ''{}'')) (Some (Request None))
      (NilPointer ''*T'') True (retry_opts (- 1)) [])) = []"
  by (simp add: exec_def configured_attempts_def retry_opts_def word_sle_eq)

text \<open>
  C4, amended. For every call with attempts after the first that are 0 or negative which
  the destination check lets through (no check asked for, or the destination a non-nil
  pointer), exactly one try takes place (try number 1) and \<open>exec\<close> returns just what that
  call of \<open>do\<close> returned, an error unwrapped. For every call with attempts after the first
  that are positive, an error that \<open>do\<close> returns on any try is returned by \<open>exec\<close> wrapped
  as \<open>RetriesExhausted\<close> with the configured attempts count and that error as its cause.
\<close>

theorem one_try_unwrapped_or_wrapped:
  assumes "exec cd client req dest validateDest opts [] = r"
  shows "(configured_attempts opts \<le>s 0 \<longrightarrow> (validateDest \<longrightarrow> is_non_nil_pointer dest) \<longrightarrow>
            (\<exists>codes sr res. tries (log_after r) = [(1, codes)] \<and>
               outcomes (log_after r) = [(sr, res)] \<and> returned r = res)) \<and>
         (0 <s configured_attempts opts \<longrightarrow>
            (\<forall>sr e. (sr, Some e) \<in> set (outcomes (log_after r)) \<longrightarrow>
               returned r = Some (RetriesExhausted (configured_attempts opts) e)))"
proof (cases rule: exec_cases [of validateDest dest cd client req opts "[]"])
  case rejected
  with assms have "log_after r = []" by auto
  with rejected(1,2) show ?thesis by simp
next
  case (ran opt rc res d l)
  from ran(7,9) assms have r: "returned r = res" "log_after r = l" by auto
  have a: "\<exists>codes sr res'. tries l = [(1, codes)] \<and> outcomes l = [(sr, res')] \<and> res = res'"
    if "configured_attempts opts \<le>s 0"
  proof -
    from that ran(5) have "sint (Attempts rc) = sint (0 :: go_int)"
      by (auto simp: word_sle_eq word_sless_alt)
    then have z: "Attempts rc = 0"
      by (rule signed_word_eqI)
    show ?thesis
    proof (cases rule: exec_loop_cases [of 1 "1 + Attempts rc" cd client req opt rc dest "[]"])
      case over
      with z show ?thesis by (simp add: word_sle_eq)
    next
      case (failed sr e d' l')
      from do_log [OF failed(2)] failed(3) ran(6) z show ?thesis by (auto simp: word_sless_alt)
    next
      case (stopped d' l')
      from do_log [OF stopped(2)] stopped(3) ran(6) show ?thesis by auto
    next
      case (retried l')
      with z show ?thesis by simp
    qed
  qed
  have b: "res = Some (RetriesExhausted (configured_attempts opts) e)"
    if "0 <s configured_attempts opts" "(sr, Some e) \<in> set (outcomes l)" for sr e
  proof -
    from that(1) ran(5) have "Attempts rc = configured_attempts opts"
      by (auto simp: word_sless_alt)
    with exec_loop_error [OF ran(6) _ that(2)] that(1) show ?thesis by simp
  qed
  show ?thesis using a b r by auto
qed

theorem one_try_unwrapped_or_wrapped_witness:
  "(\<exists>codes sr res.
      tries (log_after (exec toy_codec (Some (always 503 ''still down''))
        (Some (Request None)) NilInterface False (retry_opts (- 5)) [])) = [(1, codes)] \<and>
      outcomes (log_after (exec toy_codec (Some (always 503 ''still down''))
        (Some (Request None)) NilInterface False (retry_opts (- 5)) [])) = [(sr, res)] \<and>
      returned (exec toy_codec (Some (always 503 ''still down''))
        (Some (Request None)) NilInterface False (retry_opts (- 5)) []) = res) \<and>
   returned (exec toy_codec (Some (always 503 ''still down''))
      (Some (Request None)) NilInterface False (retry_opts 2) []) =
     Some (RetriesExhausted (configured_attempts (retry_opts 2))
            (UnexpectedStatus [200] 503 ''still down''))"
proof -
  have v: "False \<longrightarrow> is_non_nil_pointer (NilInterface :: string dest)"
    by simp
  have neg: "configured_attempts (retry_opts (- 5)) \<le>s 0"
    by (simp add: configured_attempts_def retry_opts_def word_sle_eq)
  have pos: "0 <s configured_attempts (retry_opts 2)"
    by (simp add: configured_attempts_def retry_opts_def word_sless_alt)
  have m: "(False, Some (UnexpectedStatus [200] 503 ''still down'')) \<in>
           set (outcomes (log_after (exec toy_codec (Some (always 503 ''still down''))
             (Some (Request None)) NilInterface False (retry_opts 2) [])))"
    by (simp add: eval_defs)
  show ?thesis
    using one_try_unwrapped_or_wrapped [OF refl, where cd = toy_codec
        and client = "Some (always 503 ''still down'')" and req = "Some (Request None)"
        and dest = "NilInterface :: string dest" and validateDest = False
        and opts = "retry_opts (- 5)"] neg v
      one_try_unwrapped_or_wrapped [OF refl, where cd = toy_codec
        and client = "Some (always 503 ''still down'')" and req = "Some (Request None)"
        and dest = "NilInterface :: string dest" and validateDest = False
        and opts = "retry_opts 2"] pos m
    by blast
qed

section \<open>The attempt loop: retries\<close>

text \<open>
  What \<open>do\<close> does when the limiter lets it through and the transport answers, and the
  loop's way through \<open>n\<close> answers with a retry status.
\<close>

lemma limiter_wait_grants:
  assumes "limiter_grants rl rq"
  shows "\<exists>l. limiter_wait rl (req_Context rq) log = (None, l) \<and> sends l = sends log \<and>
             tries l = tries log \<and> outcomes l = outcomes log"
  using assms
  by (auto simp: limiter_wait_def limiter_grants_def split: option.splits)

lemma do_retry_classified:
  assumes "limiter_grants rl rq"
      and "client_Do cl (sends log) = Response st body"
      and "st \<in> set codes"
  shows "\<exists>l. do cd (Some cl) rl (Some rq) dest exp codes log = ((True, None), dest, l) \<and>
             sends l = Suc (sends log) \<and> tries l = tries log \<and> outcomes l = outcomes log"
proof -
  from limiter_wait_grants [OF assms(1)] obtain l1 where
    "limiter_wait rl (req_Context rq) log = (None, l1)" "sends l1 = sends log"
    "tries l1 = tries log" "outcomes l1 = outcomes log"
    by blast
  with assms(2,3) show ?thesis
    by (simp add: do_def Let_def)
qed

lemma do_last_unexpected:
  assumes "limiter_grants rl rq"
      and "client_Do cl (sends log) = Response st body"
      and "st \<notin> set (if exp = [] then [200] else exp)"
  shows "\<exists>l. do cd (Some cl) rl (Some rq) dest exp [] log =
               ((False, Some (UnexpectedStatus (if exp = [] then [200] else exp) st
                                (errRespBody cd body))), dest, l) \<and>
             sends l = Suc (sends log) \<and> tries l = tries log \<and> outcomes l = outcomes log"
proof -
  from limiter_wait_grants [OF assms(1)] obtain l1 where
    "limiter_wait rl (req_Context rq) log = (None, l1)" "sends l1 = sends log"
    "tries l1 = tries log" "outcomes l1 = outcomes log"
    by blast
  with assms(2,3) show ?thesis
    by (auto simp: do_def Let_def errRespBody_events_def split: sum.splits)
qed

lemma retry_rounds:
  assumes "limiter_grants (RateLimiter opts) rq"
      and "\<forall>k<n. \<exists>st body. client_Do cl (sends log + k) = Response st body \<and>
             st \<in> set (RetryStatusCodes rc)"
      and "sint t + int n \<le> sint totalTries"
  shows "\<exists>l. exec_loop cd (Some cl) (Some rq) opts rc totalTries t dest log =
               exec_loop cd (Some cl) (Some rq) opts rc totalTries (t + of_nat n) dest l \<and>
             sends l = sends log + n \<and> length (tries l) = length (tries log) + n \<and>
             sint (t + of_nat n) = sint t + int n"
  using assms(2,3)
proof (induction n arbitrary: t log)
  case 0
  show ?case by (intro exI [of _ log]) simp
next
  case (Suc n)
  from Suc.prems(2) have lt: "sint t < sint totalTries" by simp
  then have le: "t \<le>s totalTries" and ne: "t \<noteq> totalTries"
    by (auto simp: word_sle_eq)
  from le ne have s1: "sint (t + 1) = sint t + 1" by (rule sint_succ)
  from Suc.prems(1) obtain st body where
    r: "client_Do cl (sends log) = Response st body" "st \<in> set (RetryStatusCodes rc)"
    by force
  then have "client_Do cl (sends (log @ [Call_do t (RetryStatusCodes rc)])) = Response st body"
    by simp
  from do_retry_classified [OF assms(1) this r(2), where cd = cd and dest = dest
         and exp = "ExpectedStatusCodes opts"] obtain l1 where
    d: "do cd (Some cl) (RateLimiter opts) (Some rq) dest (ExpectedStatusCodes opts)
          (RetryStatusCodes rc) (log @ [Call_do t (RetryStatusCodes rc)]) = ((True, None), dest, l1)"
    and l1: "sends l1 = Suc (sends log)" "tries l1 = tries log @ [(t, RetryStatusCodes rc)]"
    by auto
  have step: "exec_loop cd (Some cl) (Some rq) opts rc totalTries t dest log =
              exec_loop cd (Some cl) (Some rq) opts rc totalTries (t + 1) dest
                (l1 @ [Return_do True None])"
    using le ne d by (simp add: exec_loop.simps [of _ _ _ _ _ _ t] Let_def)
  have a: "\<forall>k<n. \<exists>st body. client_Do cl (sends (l1 @ [Return_do True None]) + k) = Response st body \<and>
             st \<in> set (RetryStatusCodes rc)"
  proof (intro allI impI)
    fix k assume "k < n"
    then have "Suc k < Suc n" by simp
    with Suc.prems(1) have "\<exists>st body. client_Do cl (sends log + Suc k) = Response st body \<and>
             st \<in> set (RetryStatusCodes rc)" by blast
    then show "\<exists>st body. client_Do cl (sends (l1 @ [Return_do True None]) + k) = Response st body \<and>
             st \<in> set (RetryStatusCodes rc)"
      using l1(1) by simp
  qed
  have b: "sint (t + 1) + int n \<le> sint totalTries"
    using Suc.prems(2) s1 by simp
  from Suc.IH [OF a b] obtain l where
    l: "exec_loop cd (Some cl) (Some rq) opts rc totalTries (t + 1) dest (l1 @ [Return_do True None]) =
        exec_loop cd (Some cl) (Some rq) opts rc totalTries (t + 1 + of_nat n) dest l"
       "sends l = sends (l1 @ [Return_do True None]) + n"
       "length (tries l) = length (tries (l1 @ [Return_do True None])) + n"
       "sint (t + 1 + of_nat n) = sint (t + 1) + int n"
    by blast
  have e: "t + 1 + of_nat n = t + of_nat (Suc n)" by simp
  show ?case
    using step l l1 s1 unfolding e by (intro exI [of _ l]) simp
qed


lemma sint_one_plus:
  fixes x :: go_int
  assumes "x <s 9223372036854775807"
  shows "sint (1 + x) = 1 + sint x"
proof -
  from assms have "sint x < 2 ^ 63 - 1" by (simp add: word_sless_alt)
  moreover have "- (2 ^ 63) \<le> sint x" using sint_ge [of x] by simp
  ultimately have b: "- (2 ^ 63) \<le> 1 + sint x" "1 + sint x < 2 ^ 63" by linarith+
  have "sint (1 + x) = signed_take_bit 63 (1 + sint x)"
    by (simp add: sint_word_ariths)
  also have "\<dots> = 1 + sint x"
    using b by (simp add: signed_take_bit_int_eq_self)
  finally show ?thesis .
qed

lemma exec_loop_reaches_last:
  assumes "limiter_grants (RateLimiter opt) rq"
      and "0 \<le>s Attempts rc" and "Attempts rc <s 9223372036854775807"
      and "\<forall>k<nat (sint (Attempts rc)). \<exists>st body. client_Do cl k = Response st body \<and>
             st \<in> set (RetryStatusCodes rc)"
  shows "\<exists>l. exec_loop cd (Some cl) (Some rq) opt rc (1 + Attempts rc) 1 dest [] =
               exec_loop cd (Some cl) (Some rq) opt rc (1 + Attempts rc) (1 + Attempts rc) dest l \<and>
             sends l = nat (sint (Attempts rc)) \<and>
             length (tries l) = nat (sint (Attempts rc))"
proof -
  let ?n = "nat (sint (Attempts rc))"
  from assms(2) have n: "int ?n = sint (Attempts rc)" by (simp add: word_sle_eq)
  have tot: "sint (1 + Attempts rc) = 1 + sint (Attempts rc)"
    using assms(3) by (rule sint_one_plus)
  have a: "\<forall>k<?n. \<exists>st body. client_Do cl (sends [] + k) = Response st body \<and>
             st \<in> set (RetryStatusCodes rc)"
    using assms(4) by simp
  have b: "sint (1 :: go_int) + int ?n \<le> sint (1 + Attempts rc)"
    using n tot by simp
  from retry_rounds [OF assms(1) a b, where cd = cd and dest = dest] obtain l where
    l: "exec_loop cd (Some cl) (Some rq) opt rc (1 + Attempts rc) 1 dest [] =
        exec_loop cd (Some cl) (Some rq) opt rc (1 + Attempts rc) (1 + of_nat ?n) dest l"
       "sends l = ?n" "length (tries l) = ?n" "sint (1 + of_nat ?n :: go_int) = sint (1 :: go_int) + int ?n"
    by auto
  have "0 \<le> sint (Attempts rc)" using assms(2) by (simp add: word_sle_eq)
  with l(4) tot have "sint (1 + of_nat ?n :: go_int) = sint (1 + Attempts rc)" by simp
  then have "(1 + of_nat ?n :: go_int) = 1 + Attempts rc" by (rule signed_word_eqI)
  with l show ?thesis by auto
qed

text \<open>The last try, and what \<open>exec\<close> returns from it.\<close>

lemma effective_attempts_nonneg: "0 \<le>s effective_attempts opts"
  by (simp add: effective_attempts_def word_sle_eq word_sless_alt)

lemma do_granted:
  assumes "limiter_grants rl rq"
      and "do cd (Some cl) rl (Some rq) dest exp codes log = (res, d, l)"
  shows "sends l = Suc (sends log) \<and> tries l = tries log"
proof -
  from limiter_wait_grants [OF assms(1)] obtain l1 where
    "limiter_wait rl (req_Context rq) log = (None, l1)" "sends l1 = sends log"
    "tries l1 = tries log"
    by blast
  with assms(2) show ?thesis
    by (auto simp: do_def Let_def errRespBody_events_def
          split: http_outcome.splits if_splits sum.splits prod.splits option.splits)
qed

lemma do_last_decode:
  assumes "limiter_grants rl rq"
      and "client_Do cl (sends log) = Response st body"
      and "st \<in> set (if exp = [] then [200] else exp)"
  shows "fst (do cd (Some cl) rl (Some rq) dest exp [] log) =
           (False,
            if dest = NilInterface then None
            else (case fst (Unmarshal cd body dest) of
                    None \<Rightarrow> None
                  | Some err \<Rightarrow> Some (DecodeError (External err) (errRespBody cd body))))"
proof -
  from limiter_wait_grants [OF assms(1)] obtain l1 where
    "limiter_wait rl (req_Context rq) log = (None, l1)" "sends l1 = sends log"
    by blast
  with assms(2,3) show ?thesis
    by (auto simp: do_def Let_def split: prod.splits option.splits)
qed

lemma exec_last_try:
  assumes r: "exec cd (Some cl) (Some rq) dest validateDest opts [] = r"
      and v: "validateDest \<longrightarrow> is_non_nil_pointer dest"
      and g: "limiter_grants (configured_limiter opts) rq"
      and mx: "effective_attempts opts <s 9223372036854775807"
      and rs: "\<forall>k<nat (sint (effective_attempts opts)). \<exists>st body.
                 client_Do cl k = Response st body \<and> st \<in> set (configured_retry_codes opts)"
  shows "\<exists>opt rc l0. RateLimiter opt = configured_limiter opts \<and>
           (if ExpectedStatusCodes opt = [] then [200] else ExpectedStatusCodes opt)
             = configured_expected opts \<and>
           Attempts rc = effective_attempts opts \<and>
           sends l0 = nat (sint (effective_attempts opts)) \<and>
           length (tries l0) = nat (sint (effective_attempts opts)) \<and>
           exec_loop cd (Some cl) (Some rq) opt rc (1 + effective_attempts opts)
             (1 + effective_attempts opts) dest l0 = (returned r, dest_after r, log_after r)"
proof (cases rule: exec_cases [of validateDest dest cd "Some cl" "Some rq" opts "[]"])
  case rejected
  with v show ?thesis by simp
next
  case (ran opt rc res d l)
  let ?E = "effective_attempts opts"
  from ran(5) have E: "Attempts rc = ?E" by (simp add: effective_attempts_def)
  from exec_loop_reaches_last [of opt rq rc cl cd dest] g effective_attempts_nonneg [of opts]
    mx rs E ran(2,4)
  obtain l0 where
    l0: "exec_loop cd (Some cl) (Some rq) opt rc (1 + ?E) 1 dest [] =
         exec_loop cd (Some cl) (Some rq) opt rc (1 + ?E) (1 + ?E) dest l0"
        "sends l0 = nat (sint ?E)" "length (tries l0) = nat (sint ?E)"
    by auto
  from l0(1) ran(6,7,8,9) r E
  have "exec_loop cd (Some cl) (Some rq) opt rc (1 + ?E) (1 + ?E) dest l0 =
          (returned r, dest_after r, log_after r)"
    by auto
  with ran(2,3) E l0(2,3) show ?thesis by blast
qed

lemma exec_counts:
  assumes r: "exec cd (Some cl) (Some rq) dest validateDest opts [] = r"
      and v: "validateDest \<longrightarrow> is_non_nil_pointer dest"
      and g: "limiter_grants (configured_limiter opts) rq"
      and mx: "effective_attempts opts <s 9223372036854775807"
      and rs: "\<forall>k<nat (sint (effective_attempts opts)). \<exists>st body.
                 client_Do cl k = Response st body \<and> st \<in> set (configured_retry_codes opts)"
  shows "length (tries (log_after r)) = 1 + nat (sint (effective_attempts opts)) \<and>
         sends (log_after r) = 1 + nat (sint (effective_attempts opts))"
proof -
  let ?E = "effective_attempts opts"
  from exec_last_try [OF r v g mx rs] obtain opt rc l0 where
    o: "RateLimiter opt = configured_limiter opts"
    and l0: "sends l0 = nat (sint ?E)" "length (tries l0) = nat (sint ?E)"
    and e: "exec_loop cd (Some cl) (Some rq) opt rc (1 + ?E) (1 + ?E) dest l0 =
              (returned r, dest_after r, log_after r)"
    by blast
  from g o have g': "limiter_grants (RateLimiter opt) rq" by simp
  show ?thesis
  proof (cases rule: exec_loop_cases [of "1 + ?E" "1 + ?E" cd "Some cl" "Some rq" opt rc dest l0])
    case over
    then show ?thesis by (simp add: word_sle_eq)
  next
    case (failed sr e' d l)
    from do_granted [OF g' failed(2)] failed(3) e l0 show ?thesis by auto
  next
    case (stopped d l)
    from do_granted [OF g' stopped(2)] stopped(3) e l0 show ?thesis by auto
  next
    case (retried l)
    then show ?thesis by simp
  qed
qed

lemma exec_last_result:
  assumes r: "exec cd (Some cl) (Some rq) dest validateDest opts [] = r"
      and v: "validateDest \<longrightarrow> is_non_nil_pointer dest"
      and g: "limiter_grants (configured_limiter opts) rq"
      and mx: "effective_attempts opts <s 9223372036854775807"
      and rs: "\<forall>k<nat (sint (effective_attempts opts)). \<exists>st body.
                 client_Do cl k = Response st body \<and> st \<in> set (configured_retry_codes opts)"
      and la: "client_Do cl (nat (sint (effective_attempts opts))) = Response st body"
  shows "returned r =
           (if st \<notin> set (configured_expected opts)
            then Some (if 0 <s effective_attempts opts
                       then RetriesExhausted (effective_attempts opts)
                              (UnexpectedStatus (configured_expected opts) st (errRespBody cd body))
                       else UnexpectedStatus (configured_expected opts) st (errRespBody cd body))
            else if dest = NilInterface then None
            else (case fst (Unmarshal cd body dest) of
                    None \<Rightarrow> None
                  | Some err \<Rightarrow>
                      Some (if 0 <s effective_attempts opts
                            then RetriesExhausted (effective_attempts opts)
                                   (DecodeError (External err) (errRespBody cd body))
                            else DecodeError (External err) (errRespBody cd body))))"
proof -
  let ?E = "effective_attempts opts"
  from exec_last_try [OF r v g mx rs] obtain opt rc l0 where
    o: "RateLimiter opt = configured_limiter opts"
    and x: "(if ExpectedStatusCodes opt = [] then [200] else ExpectedStatusCodes opt)
             = configured_expected opts"
    and a: "Attempts rc = ?E"
    and l0: "sends l0 = nat (sint ?E)"
    and e: "exec_loop cd (Some cl) (Some rq) opt rc (1 + ?E) (1 + ?E) dest l0 =
              (returned r, dest_after r, log_after r)"
    by blast
  from g o have g': "limiter_grants (RateLimiter opt) rq" by simp
  have la': "client_Do cl (sends (l0 @ [Call_do (1 + ?E) []])) = Response st body"
    using la l0 by simp
  have d: "fst (do cd (Some cl) (RateLimiter opt) (Some rq) dest (ExpectedStatusCodes opt) []
                 (l0 @ [Call_do (1 + ?E) []])) =
           (False,
            if st \<notin> set (configured_expected opts)
            then Some (UnexpectedStatus (configured_expected opts) st (errRespBody cd body))
            else if dest = NilInterface then None
            else (case fst (Unmarshal cd body dest) of
                    None \<Rightarrow> None
                  | Some err \<Rightarrow> Some (DecodeError (External err) (errRespBody cd body))))"
  proof (cases "st \<in> set (configured_expected opts)")
    case True
    with do_last_decode [OF g' la', where exp = "ExpectedStatusCodes opt" and cd = cd
        and dest = dest] x
    show ?thesis by simp
  next
    case False
    with do_last_unexpected [OF g' la', where exp = "ExpectedStatusCodes opt" and cd = cd
        and dest = dest] x
    show ?thesis by auto
  qed
  show ?thesis
  proof (cases rule: exec_loop_cases [of "1 + ?E" "1 + ?E" cd "Some cl" "Some rq" opt rc dest l0])
    case over
    then show ?thesis by (simp add: word_sle_eq)
  next
    case (failed sr e' d' l)
    with d e a show ?thesis by (auto split: if_splits option.splits)
  next
    case (stopped d' l)
    with d e a show ?thesis by (auto split: if_splits option.splits)
  next
    case (retried l)
    then show ?thesis by simp
  qed
qed


lemma Error_ends_with_body:
  "\<exists>pre. Error (UnexpectedStatus exp st body) = pre @ body"
  "\<exists>pre. Error (RetriesExhausted n (UnexpectedStatus exp st body)) = pre @ body"
proof -
  have "Error (UnexpectedStatus exp st body) =
        (''expected status code(s) ['' @ show_ints exp @ ''] but got '' @ show_int st @
         ''. body: '') @ body"
    by simp
  then show "\<exists>pre. Error (UnexpectedStatus exp st body) = pre @ body" by (rule exI)
  have "Error (RetriesExhausted n (UnexpectedStatus exp st body)) =
        (''retries exhausted after '' @ show_int n @ '' attempt(s): '' @
         ''expected status code(s) ['' @ show_ints exp @ ''] but got '' @ show_int st @
         ''. body: '') @ body"
    by simp
  then show "\<exists>pre. Error (RetriesExhausted n (UnexpectedStatus exp st body)) = pre @ body"
    by (rule exI)
qed

lemma exec_retry_codes:
  assumes "exec cd client req dest validateDest opts [] = r"
  shows "\<forall>x\<in>set (tries (log_after r)).
           snd x = (if fst x = 1 + effective_attempts opts then []
                    else configured_retry_codes opts)"
proof (cases rule: exec_cases [of validateDest dest cd client req opts "[]"])
  case rejected
  with assms have "log_after r = []" by auto
  then show ?thesis by simp
next
  case (ran opt rc res d l)
  have "\<forall>x\<in>set (tries l). snd x = (if fst x = 1 + Attempts rc then [] else RetryStatusCodes rc)"
    by (rule exec_loop_codes [OF ran(6)]) simp
  with ran(4,5,9) assms show ?thesis by (auto simp: effective_attempts_def)
qed

text \<open>
  C1, as the claim has it, fails in its second half, although the server answers every
  request with a retry status (503). In the order of the conjuncts below: with no attempts
  after the first, \<open>exec\<close> returns the bare \<open>UnexpectedStatus\<close>, not wrapped as
  \<open>RetriesExhausted\<close>; when the retry status is an expected status too, the last try, which
  is given no retry codes, succeeds and no error is returned; when the limiter refuses the
  second wait, the second of three tries fails with \<open>RateLimitWaitFailed\<close> and one request
  has been sent; when the destination check rejects the call, no try takes place; when the
  body of the response cannot be read, the first try fails with the read error. The last
  conjunct is of another kind: with the largest \<open>int\<close> as attempts, \<open>1 + Attempts\<close> wraps
  around to a negative \<open>totalTries\<close>, so no try takes place and nil is returned, where
  \<open>options.go\<close> says that the total of tries is 1 plus the attempts.
\<close>

theorem exhaustion_counterexample:
  "returned (exec toy_codec (Some (always 503 ''still down'')) (Some (Request None))
      NilInterface False (retry_opts 0) []) =
     Some (UnexpectedStatus [200] 503 ''still down'') \<and>
   returned (exec toy_codec (Some (always 503 ''still down'')) (Some (Request None))
      NilInterface False
      (Some \<lparr>ExpectedStatusCodes = [200, 503],
             Retry = Some \<lparr>Attempts = 1, RetryStatusCodes = [503]\<rparr>,
             RateLimiter = None\<rparr>) []) = None \<and>
   exec toy_codec (Some (always 503 ''still down'')) (Some live_request) NilInterface False
      (limited_retry_opts (refusing_from 1) 2) [] =
     \<lparr>returned = Some (RetriesExhausted 2 (RateLimitWaitFailed
                   (External ''rate: Wait(n=1) would exceed context deadline''))),
      opts_after = limited_retry_opts (refusing_from 1) 2, dest_after = NilInterface,
      log_after = [Call_do 1 [503], Limiter_Wait, Transport_Send, Body_ReadAll,
                   Return_do True None, Call_do 2 [503], Limiter_Wait,
                   Return_do False (Some (RateLimitWaitFailed
                     (External ''rate: Wait(n=1) would exceed context deadline'')))]\<rparr> \<and>
   exec toy_codec (Some (always 503 ''still down'')) (Some (Request None)) (NilPointer ''*T'')
      True (retry_opts 2) [] =
     \<lparr>returned = Some (InvalidDestination ''*T''), opts_after = retry_opts 2,
      dest_after = NilPointer ''*T'', log_after = []\<rparr> \<and>
   exec toy_codec (Some (unreadable 503 ''unexpected EOF'')) (Some (Request None)) NilInterface
      False (retry_opts 2) [] =
     \<lparr>returned = Some (RetriesExhausted 2 (External ''unexpected EOF'')),
      opts_after = retry_opts 2, dest_after = NilInterface,
      log_after = [Call_do 1 [503], Transport_Send, Body_ReadAll,
                   Return_do False (Some (External ''unexpected EOF''))]\<rparr> \<and>
   exec toy_codec (Some (always 503 ''still down'')) (Some (Request None)) NilInterface False
      (retry_opts 9223372036854775807) [] =
     \<lparr>returned = None, opts_after = retry_opts 9223372036854775807,
      dest_after = NilInterface, log_after = []\<rparr>"
  by (simp add: eval_defs)

text \<open>
  C1, amended. In every run of \<open>exec\<close>, a try whose number is not \<open>totalTries\<close> (1 plus
  the attempts after the first, a negative count standing for 0) gives \<open>do\<close> the configured
  retry status codes, and try number \<open>totalTries\<close> gives it none. If moreover client and
  request are there, the destination check lets the call through, the limiter (if there is
  one) never refuses a wait, the attempts are below the largest \<open>int\<close>, and the transport
  answers every send with a response whose body is read and whose status is a retry
  status, then exactly 1 plus attempts tries and sends take place (a negative count
  standing for 0 again); and if the status of the last of these responses is not an expected one (200 when none is configured), \<open>exec\<close>
  returns the \<open>UnexpectedStatus\<close> of that response, wrapped as \<open>RetriesExhausted\<close> with the
  attempts count when the attempts are positive and bare when they are not, and the text
  of the returned error ends with the diagnostic text of the last response's body.
\<close>

theorem retry_codes_per_try_and_exhaustion:
  assumes "exec cd client req dest validateDest opts [] = r"
  shows "(\<forall>x\<in>set (tries (log_after r)).
            snd x = (if fst x = 1 + effective_attempts opts then []
                     else configured_retry_codes opts)) \<and>
         (client = Some cl \<and> req = Some rq \<and> (validateDest \<longrightarrow> is_non_nil_pointer dest) \<and>
          limiter_grants (configured_limiter opts) rq \<and>
          effective_attempts opts <s 9223372036854775807 \<and>
          (\<forall>k\<le>nat (sint (effective_attempts opts)). \<exists>st body.
              client_Do cl k = Response st body \<and> st \<in> set (configured_retry_codes opts)) \<longrightarrow>
            length (tries (log_after r)) = 1 + nat (sint (effective_attempts opts)) \<and>
            sends (log_after r) = 1 + nat (sint (effective_attempts opts)) \<and>
            (\<forall>st body.
               client_Do cl (nat (sint (effective_attempts opts))) = Response st body \<and>
               st \<notin> set (configured_expected opts) \<longrightarrow>
               returned r =
                 Some (if 0 <s effective_attempts opts
                       then RetriesExhausted (effective_attempts opts)
                              (UnexpectedStatus (configured_expected opts) st (errRespBody cd body))
                       else UnexpectedStatus (configured_expected opts) st (errRespBody cd body)) \<and>
               (\<exists>pre. Error (if 0 <s effective_attempts opts
                       then RetriesExhausted (effective_attempts opts)
                              (UnexpectedStatus (configured_expected opts) st (errRespBody cd body))
                       else UnexpectedStatus (configured_expected opts) st (errRespBody cd body))
                     = pre @ errRespBody cd body)))"
proof (intro conjI impI allI)
  show "\<forall>x\<in>set (tries (log_after r)).
            snd x = (if fst x = 1 + effective_attempts opts then []
                     else configured_retry_codes opts)"
    using assms by (rule exec_retry_codes)
next
  assume h: "client = Some cl \<and> req = Some rq \<and> (validateDest \<longrightarrow> is_non_nil_pointer dest) \<and>
          limiter_grants (configured_limiter opts) rq \<and>
          effective_attempts opts <s 9223372036854775807 \<and>
          (\<forall>k\<le>nat (sint (effective_attempts opts)). \<exists>st body.
              client_Do cl k = Response st body \<and> st \<in> set (configured_retry_codes opts))"
  then have rs: "\<forall>k<nat (sint (effective_attempts opts)). \<exists>st body.
              client_Do cl k = Response st body \<and> st \<in> set (configured_retry_codes opts)"
    by auto
  from h assms have e: "exec cd (Some cl) (Some rq) dest validateDest opts [] = r" by simp
  from h have v: "validateDest \<longrightarrow> is_non_nil_pointer dest"
    and g: "limiter_grants (configured_limiter opts) rq"
    and mx: "effective_attempts opts <s 9223372036854775807"
    by simp_all
  from exec_counts [OF e v g mx rs]
  show "length (tries (log_after r)) = 1 + nat (sint (effective_attempts opts))"
    and "sends (log_after r) = 1 + nat (sint (effective_attempts opts))"
    by simp_all
  fix st body
  assume la: "client_Do cl (nat (sint (effective_attempts opts))) = Response st body \<and>
              st \<notin> set (configured_expected opts)"
  with exec_last_result [OF e v g mx rs, of st body]
  show "returned r =
          Some (if 0 <s effective_attempts opts
                then RetriesExhausted (effective_attempts opts)
                       (UnexpectedStatus (configured_expected opts) st (errRespBody cd body))
                else UnexpectedStatus (configured_expected opts) st (errRespBody cd body))"
    by simp
  show "\<exists>pre. Error (if 0 <s effective_attempts opts
                then RetriesExhausted (effective_attempts opts)
                       (UnexpectedStatus (configured_expected opts) st (errRespBody cd body))
                else UnexpectedStatus (configured_expected opts) st (errRespBody cd body))
              = pre @ errRespBody cd body"
  proof (cases "0 <s effective_attempts opts")
    case True
    then show ?thesis by (simp only: if_True) (rule Error_ends_with_body)
  next
    case False
    then show ?thesis by (simp only: if_False) (rule Error_ends_with_body)
  qed
qed

theorem retry_codes_per_try_and_exhaustion_witness:
  "tries (log_after (exec toy_codec (Some (always 503 ''still down''))
        (Some (Request None)) NilInterface False (retry_opts 2) [])) =
     [(1, configured_retry_codes (retry_opts 2)), (2, configured_retry_codes (retry_opts 2)),
      (3, [])] \<and>
   length (tries (log_after (exec toy_codec (Some (always 503 ''still down''))
        (Some (Request None)) NilInterface False (retry_opts 2) []))) = 3 \<and>
   sends (log_after (exec toy_codec (Some (always 503 ''still down''))
        (Some (Request None)) NilInterface False (retry_opts 2) [])) = 3 \<and>
   returned (exec toy_codec (Some (always 503 ''still down''))
        (Some (Request None)) NilInterface False (retry_opts 2) []) =
     Some (RetriesExhausted 2 (UnexpectedStatus [200] 503 ''still down''))"
proof -
  have a: "effective_attempts (retry_opts 2) = 2"
    by (simp add: effective_attempts_def configured_attempts_def retry_opts_def word_sless_alt)
  have h: "Some (always 503 ''still down'') = Some (always 503 ''still down'') \<and>
      Some (Request None) = Some (Request None) \<and>
      (False \<longrightarrow> is_non_nil_pointer (NilInterface :: string dest)) \<and>
      limiter_grants (configured_limiter (retry_opts 2)) (Request None) \<and>
      effective_attempts (retry_opts 2) <s 9223372036854775807 \<and>
      (\<forall>k\<le>nat (sint (effective_attempts (retry_opts 2))). \<exists>st body.
          client_Do (always 503 ''still down'') k = Response st body \<and>
          st \<in> set (configured_retry_codes (retry_opts 2)))"
    by (simp add: a limiter_grants_def always_def word_sless_alt)
       (simp add: configured_retry_codes_def retry_opts_def)
  have la: "client_Do (always 503 ''still down'') (nat (sint (effective_attempts (retry_opts 2))))
        = Response 503 ''still down'' \<and> 503 \<notin> set (configured_expected (retry_opts 2))"
    by (simp add: always_def configured_expected_def retry_opts_def)
  have t: "tries (log_after (exec toy_codec (Some (always 503 ''still down''))
        (Some (Request None)) NilInterface False (retry_opts 2) [])) =
      [(1, configured_retry_codes (retry_opts 2)), (2, configured_retry_codes (retry_opts 2)),
       (3, [])]"
    by (simp add: eval_defs configured_retry_codes_def)
  have e: "configured_expected (retry_opts 2) = [200]"
    "errRespBody toy_codec ''still down'' = ''still down''"
    by (simp_all add: configured_expected_def retry_opts_def errRespBody_def toy_codec_def
          toy_is_json_def)
  have p: "0 <s (2 :: go_int)" by (simp add: word_sless_alt)
  from retry_codes_per_try_and_exhaustion [OF refl, where cd = toy_codec
        and client = "Some (always 503 ''still down'')" and req = "Some (Request None)"
        and dest = NilInterface and validateDest = False and opts = "retry_opts 2"
        and cl = "always 503 ''still down''" and rq = "Request None"] h
  have c: "length (tries (log_after (exec toy_codec (Some (always 503 ''still down''))
        (Some (Request None)) NilInterface False (retry_opts 2) []))) = 3"
    "sends (log_after (exec toy_codec (Some (always 503 ''still down''))
        (Some (Request None)) NilInterface False (retry_opts 2) [])) = 3"
    and x: "\<forall>st body.
       client_Do (always 503 ''still down'') (nat (sint (effective_attempts (retry_opts 2)))) =
         Response st body \<and> st \<notin> set (configured_expected (retry_opts 2)) \<longrightarrow>
       returned (exec toy_codec (Some (always 503 ''still down''))
        (Some (Request None)) NilInterface False (retry_opts 2) []) =
         Some (if 0 <s effective_attempts (retry_opts 2)
               then RetriesExhausted (effective_attempts (retry_opts 2))
                      (UnexpectedStatus (configured_expected (retry_opts 2)) st
                         (errRespBody toy_codec body))
               else UnexpectedStatus (configured_expected (retry_opts 2)) st
                      (errRespBody toy_codec body))"
    by (simp_all add: a)
  from x la have "returned (exec toy_codec (Some (always 503 ''still down''))
        (Some (Request None)) NilInterface False (retry_opts 2) []) =
     Some (RetriesExhausted 2 (UnexpectedStatus [200] 503 ''still down''))"
    by (simp add: a e p)
  with t c show ?thesis by simp
qed

text \<open>
  C2, as the claim has it, fails, although the server answers the first request with a
  retry status (503) and the second with an expected one (200), with one attempt after the
  first. In the order of the conjuncts below: when a destination is given and the body of
  the second response does not decode into it, \<open>DoAndUnwrapWithOptions\<close> sends twice and
  returns the \<open>DecodeError\<close> wrapped as \<open>RetriesExhausted\<close>; when the limiter refuses the
  second wait, one request is sent and \<open>RateLimitWaitFailed\<close> is returned; when the
  destination check rejects the call, nothing is sent; when the body of the first response
  cannot be read, the first try fails with the read error. The last conjunct is of another
  kind: with the largest \<open>int\<close> as attempts, \<open>1 + Attempts\<close> wraps around to a negative
  \<open>totalTries\<close>, so nothing is sent and nil is returned, where \<open>options.go\<close> says that
  the total of tries is 1 plus the attempts.
\<close>

theorem retries_then_success_counterexample:
  "client_Do (first_then 1 503 ''down'' 200 ''not json'') 0 = Response 503 ''down'' \<and>
   503 \<in> set (configured_retry_codes (retry_opts 1)) \<and>
   client_Do (first_then 1 503 ''down'' 200 ''not json'') 1 = Response 200 ''not json'' \<and>
   200 \<in> set (configured_expected (retry_opts 1)) \<and>
   returned (DoAndUnwrapWithOptions toy_codec (Some (first_then 1 503 ''down'' 200 ''not json''))
      (Some (Request None)) (Pointer ''*T'' ''old'') (retry_opts 1) []) =
     Some (RetriesExhausted 1 (DecodeError (External ''invalid character'') ''not json'')) \<and>
   sends (log_after (DoAndUnwrapWithOptions toy_codec
      (Some (first_then 1 503 ''down'' 200 ''not json''))
      (Some (Request None)) (Pointer ''*T'' ''old'') (retry_opts 1) [])) = 2 \<and>
   exec toy_codec (Some (first_then 1 503 ''down'' 200 ''{}'')) (Some live_request)
      NilInterface False (limited_retry_opts (refusing_from 1) 1) [] =
     \<lparr>returned = Some (RetriesExhausted 1 (RateLimitWaitFailed
                   (External ''rate: Wait(n=1) would exceed context deadline''))),
      opts_after = limited_retry_opts (refusing_from 1) 1, dest_after = NilInterface,
      log_after = [Call_do 1 [503], Limiter_Wait, Transport_Send, Body_ReadAll,
                   Return_do True None, Call_do 2 [], Limiter_Wait,
                   Return_do False (Some (RateLimitWaitFailed
                     (External ''rate: Wait(n=1) would exceed context deadline'')))]\<rparr> \<and>
   exec toy_codec (Some (first_then 1 503 ''down'' 200 ''{}'')) (Some (Request None))
      (NilPointer ''*T'') True (retry_opts 1) [] =
     \<lparr>returned = Some (InvalidDestination ''*T''), opts_after = retry_opts 1,
      dest_after = NilPointer ''*T'', log_after = []\<rparr> \<and>
   exec toy_codec (Some (answers [BodyReadError 503 ''unexpected EOF''] (Response 200 ''{}'')))
      (Some (Request None)) NilInterface False (retry_opts 1) [] =
     \<lparr>returned = Some (RetriesExhausted 1 (External ''unexpected EOF'')),
      opts_after = retry_opts 1, dest_after = NilInterface,
      log_after = [Call_do 1 [503], Transport_Send, Body_ReadAll,
                   Return_do False (Some (External ''unexpected EOF''))]\<rparr> \<and>
   exec toy_codec (Some (first_then 9223372036854775807 503 ''down'' 200 ''{}''))
      (Some (Request None)) NilInterface False (retry_opts 9223372036854775807) [] =
     \<lparr>returned = None, opts_after = retry_opts 9223372036854775807,
      dest_after = NilInterface, log_after = []\<rparr>"
  by (simp add: DoAndUnwrapWithOptions_def eval_defs configured_retry_codes_def
        configured_expected_def)

text \<open>
  C2, amended. When client and request are there, the destination check lets the call
  through, the limiter (if there is one) never refuses a wait, the attempts after the first
  are \<open>N > 0\<close> and below the largest \<open>int\<close>, and the transport answers the first \<open>N\<close>
  sends with responses whose body is read and whose status is a retry status, and send
  number \<open>N + 1\<close> with a response whose body is read and whose status is an expected one,
  then \<open>exec\<close> makes exactly \<open>N + 1\<close> tries and sends the request exactly \<open>N + 1\<close>
  times; it returns no error when no destination is given or the body of that last response
  decodes into the destination, and otherwise the \<open>DecodeError\<close> of the last try wrapped as
  \<open>RetriesExhausted\<close>.
\<close>

theorem retries_then_success:
  assumes r: "exec cd (Some cl) (Some rq) dest validateDest opts [] = r"
      and v: "validateDest \<longrightarrow> is_non_nil_pointer dest"
      and g: "limiter_grants (configured_limiter opts) rq"
      and pos: "0 <s configured_attempts opts"
      and mx: "configured_attempts opts <s 9223372036854775807"
      and rs: "\<forall>k<nat (sint (configured_attempts opts)). \<exists>st body.
                 client_Do cl k = Response st body \<and> st \<in> set (configured_retry_codes opts)"
      and la: "client_Do cl (nat (sint (configured_attempts opts))) = Response st body"
      and ex: "st \<in> set (configured_expected opts)"
  shows "sends (log_after r) = nat (sint (configured_attempts opts)) + 1 \<and>
         length (tries (log_after r)) = nat (sint (configured_attempts opts)) + 1 \<and>
         returned r =
           (if dest = NilInterface then None
            else (case fst (Unmarshal cd body dest) of
                    None \<Rightarrow> None
                  | Some err \<Rightarrow>
                      Some (RetriesExhausted (configured_attempts opts)
                              (DecodeError (External err) (errRespBody cd body)))))"
proof -
  from pos have e: "effective_attempts opts = configured_attempts opts"
    by (simp add: effective_attempts_def word_sless_alt)
  from mx rs la e have mx': "effective_attempts opts <s 9223372036854775807"
    and rs': "\<forall>k<nat (sint (effective_attempts opts)). \<exists>st body.
                 client_Do cl k = Response st body \<and> st \<in> set (configured_retry_codes opts)"
    and la': "client_Do cl (nat (sint (effective_attempts opts))) = Response st body"
    by simp_all
  from exec_counts [OF r v g mx' rs'] e
  have c: "sends (log_after r) = nat (sint (configured_attempts opts)) + 1"
    "length (tries (log_after r)) = nat (sint (configured_attempts opts)) + 1"
    by simp_all
  from exec_last_result [OF r v g mx' rs' la'] ex pos e
  have "returned r =
           (if dest = NilInterface then None
            else (case fst (Unmarshal cd body dest) of
                    None \<Rightarrow> None
                  | Some err \<Rightarrow>
                      Some (RetriesExhausted (configured_attempts opts)
                              (DecodeError (External err) (errRespBody cd body)))))"
    by (simp split: option.splits)
  with c show ?thesis by simp
qed

theorem retries_then_success_witness:
  "sends (log_after (exec toy_codec (Some (first_then 2 503 ''down'' 200 ''{}''))
      (Some (Request None)) (Pointer ''*T'' ''old'') True (retry_opts 2) [])) = 3 \<and>
   length (tries (log_after (exec toy_codec (Some (first_then 2 503 ''down'' 200 ''{}''))
      (Some (Request None)) (Pointer ''*T'' ''old'') True (retry_opts 2) []))) = 3 \<and>
   returned (exec toy_codec (Some (first_then 2 503 ''down'' 200 ''{}''))
      (Some (Request None)) (Pointer ''*T'' ''old'') True (retry_opts 2) []) = None"
proof -
  have a: "configured_attempts (retry_opts 2) = 2"
    by (simp add: configured_attempts_def retry_opts_def)
  have v: "True \<longrightarrow> is_non_nil_pointer (Pointer ''*T'' ''old'')"
    by simp
  have g: "limiter_grants (configured_limiter (retry_opts 2)) (Request None)"
    by (simp add: limiter_grants_def)
  have pos: "0 <s configured_attempts (retry_opts 2)"
    by (simp add: a word_sless_alt)
  have mx: "configured_attempts (retry_opts 2) <s 9223372036854775807"
    by (simp add: a word_sless_alt)
  have rs: "\<forall>k<nat (sint (configured_attempts (retry_opts 2))). \<exists>st body.
      client_Do (first_then 2 503 ''down'' 200 ''{}'') k = Response st body \<and>
      st \<in> set (configured_retry_codes (retry_opts 2))"
    by (simp add: configured_attempts_def first_then_def configured_retry_codes_def retry_opts_def)
  have la: "client_Do (first_then 2 503 ''down'' 200 ''{}'')
              (nat (sint (configured_attempts (retry_opts 2)))) = Response 200 ''{}''"
    by (simp add: a first_then_def)
  have ex: "200 \<in> set (configured_expected (retry_opts 2))"
    by (simp add: configured_expected_def retry_opts_def)
  have de: "fst (Unmarshal toy_codec ''{}'' (Pointer ''*T'' ''old'')) = None"
    by (simp add: toy_codec_def toy_is_json_def)
  show ?thesis
    using retries_then_success [OF refl v g pos mx rs la ex, where cd = toy_codec] de
    by (simp add: a)
qed

end
